theory Spec2Isabelle
  imports Main "HOL-Library.AList"
begin

section \<open>The Transformer agent of iDDS (idds/agents/transformer/transformer.py)\<close>

subsection \<open>Enumerations of idds.common.constants\<close>

text \<open>
  Modelled from the spec: the enumerations of \<^verbatim>\<open>idds.common.constants\<close>, a module
  the agent imports and whose text is not among the sources. The data model of the
  specification names the members: a transform is Ready, Transforming, Finished,
  Failed or SubFinished; a collection's \<^verbatim>\<open>coll_status\<close> is New, Open, Update, Updated,
  Closed, SubClosed or Failed; its \<^verbatim>\<open>relation_type\<close> is Input, Output or Log; a
  content is New, Failed, Available, FinalFailed "plus others"
  (\<open>ContentStatus_Other n\<close> stands for the n-th of the others).
\<close>

datatype TransformStatus =
    TransformStatus_Ready
  | TransformStatus_Transforming
  | TransformStatus_Finished
  | TransformStatus_Failed
  | TransformStatus_SubFinished

datatype CollectionStatus =
    CollectionStatus_New
  | CollectionStatus_Open
  | CollectionStatus_Update
  | CollectionStatus_Updated
  | CollectionStatus_Closed
  | CollectionStatus_SubClosed
  | CollectionStatus_Failed

datatype CollectionRelationType =
    CollectionRelationType_Input
  | CollectionRelationType_Output
  | CollectionRelationType_Log

datatype ContentStatus =
    ContentStatus_New
  | ContentStatus_Failed
  | ContentStatus_Available
  | ContentStatus_FinalFailed
  | ContentStatus_Other nat

subsection \<open>Python values, dictionaries and exceptions\<close>

text \<open>
  The agent handles transforms and statistics as Python dictionaries. A dictionary is an
  association list in insertion order with pairwise different keys; \<open>AList.update\<close>
  is Python's item assignment (an existing key keeps its place, a new one goes last).
  \<open>PyContentStatusValue s\<close> is \<^verbatim>\<open>ContentStatus.s.value\<close>, the raw value of the member:
  different members of an enumeration have different values, and a value is not a member.
\<close>

datatype pyval =
    PyNone
  | PyBool bool
  | PyInt int
  | PyStr string
  | PyTransformStatus TransformStatus
  | PyCollectionStatus CollectionStatus
  | PyContentStatus ContentStatus
  | PyContentStatusValue ContentStatus
  | PyDict "(pyval \<times> pyval) list"

type_synonym pydict = "(pyval \<times> pyval) list"

text \<open>
  Exceptions. \<open>IDDSException\<close> is the agent's own class; the next four are the built-in
  ones the code can raise by itself; \<open>OtherException\<close> is any other subclass of
  \<^verbatim>\<open>Exception\<close>. \<open>KeyboardInterrupt\<close> and \<open>SystemExit\<close> derive from
  \<^verbatim>\<open>BaseException\<close> only, so \<^verbatim>\<open>except Exception\<close> does not catch them.
\<close>

datatype exn =
    IDDSException string
  | IndexError
  | KeyError
  | TypeError
  | AttributeError
  | OtherException string
  | KeyboardInterrupt
  | SystemExit

fun is_IDDSException :: "exn \<Rightarrow> bool" where
  "is_IDDSException (IDDSException m) = True"
| "is_IDDSException e = False"

fun is_Exception :: "exn \<Rightarrow> bool" where
  "is_Exception KeyboardInterrupt = False"
| "is_Exception SystemExit = False"
| "is_Exception e = True"

definition getitem :: "pydict \<Rightarrow> pyval \<Rightarrow> exn + pyval" where
  \<comment> \<open>\<^verbatim>\<open>d[k]\<close> on a dictionary\<close>
  "getitem d k = (case map_of d k of None \<Rightarrow> Inl KeyError | Some v \<Rightarrow> Inr v)"

definition subscript :: "pyval \<Rightarrow> pyval \<Rightarrow> exn + pyval" where
  \<comment> \<open>\<^verbatim>\<open>x[k]\<close> on any value: only a dictionary can be indexed by a key\<close>
  "subscript x k = (case x of PyDict d \<Rightarrow> getitem d k | _ \<Rightarrow> Inl TypeError)"

definition setitem :: "pydict \<Rightarrow> pyval \<Rightarrow> pyval \<Rightarrow> pydict" where
  \<comment> \<open>\<^verbatim>\<open>d[k] = v\<close>\<close>
  "setitem d k v = AList.update k v d"

definition setitem2 :: "pydict \<Rightarrow> pyval \<Rightarrow> pyval \<Rightarrow> pyval \<Rightarrow> exn + pydict" where
  \<comment> \<open>\<^verbatim>\<open>d[k1][k2] = v\<close>: \<^verbatim>\<open>d[k1]\<close> is read (KeyError when missing) and must be a
      dictionary, which is then updated in place\<close>
  "setitem2 d k1 k2 v =
     (case map_of d k1 of
        None \<Rightarrow> Inl KeyError
      | Some (PyDict m) \<Rightarrow> Inr (AList.update k1 (PyDict (setitem m k2 v)) d)
      | Some _ \<Rightarrow> Inl TypeError)"

fun truthy :: "pyval \<Rightarrow> bool" where
  \<comment> \<open>the truth value Python gives a value in a condition\<close>
  "truthy PyNone = False"
| "truthy (PyBool b) = b"
| "truthy (PyInt i) = (i \<noteq> 0)"
| "truthy (PyStr s) = (s \<noteq> [])"
| "truthy (PyDict d) = (d \<noteq> [])"
| "truthy v = True"

subsection \<open>Collections and the calls to the persistence layer\<close>

record collection =
  coll_id :: int
  relation_type :: CollectionRelationType
  coll_status :: CollectionStatus
  coll_metadata :: pydict

text \<open>
  The functions of \<^verbatim>\<open>idds.core\<close> that write are recorded, in call order, with their
  arguments; the ones that read are parameters of the functions below.
\<close>

datatype db_write =
    core_catalog_add_contents pyval
  | core_catalog_update_collection int pydict
  | core_transforms_update_transform pyval pydict

definition unsupported :: string where
  "unsupported = ''IDDS currently doesn't support transforms with more than one input or output''"

subsection \<open>Transformer.fill_new_output_contents\<close>

definition get_new_output_contents :: "pydict \<Rightarrow> collection \<Rightarrow> collection \<Rightarrow> pyval" where
  \<comment> \<open>the body is \<^verbatim>\<open>pass\<close>: the method returns None\<close>
  "get_new_output_contents transform input_collection output_collection = PyNone"

definition fill_new_output_contents ::
  "pydict \<Rightarrow> collection list \<Rightarrow> collection list \<Rightarrow> collection list \<Rightarrow> db_write list
     \<Rightarrow> (exn + unit) \<times> db_write list" where
  "fill_new_output_contents transform input_collections output_collections log_collections ws =
     (if length input_collections > 1 \<or> length output_collections > 1 \<or> length log_collections > 1
      then (Inl (IDDSException unsupported), ws)
      else case input_collections of
        [] \<Rightarrow> (Inl IndexError, ws)
      | input_collection # _ \<Rightarrow>
       (case output_collections of
          [] \<Rightarrow> (Inl IndexError, ws)
        | output_collection # _ \<Rightarrow>
            if coll_status input_collection = CollectionStatus_Update
            then
              let new_out_contents = get_new_output_contents transform input_collection output_collection;
                  ws1 = ws @ [core_catalog_add_contents new_out_contents]
              in (case getitem (coll_metadata input_collection) (PyStr ''ddm_status'') of
                    Inl e \<Rightarrow> (Inl e, ws1)
                  | Inr ddm_status \<Rightarrow>
                      let parameters =
                            (if ddm_status = PyStr ''closed''
                             then [(PyStr ''coll_status'', PyCollectionStatus CollectionStatus_Closed)]
                             else [(PyStr ''coll_status'', PyCollectionStatus CollectionStatus_Open)]);
                          ws2 = ws1 @ [core_catalog_update_collection (coll_id input_collection) parameters];
                          ws3 = ws2 @ [core_catalog_update_collection (coll_id output_collection)
                                  [(PyStr ''coll_status'', PyCollectionStatus CollectionStatus_Updated)]]
                      in (Inr (), ws3))
            else (Inr (), ws)))"

subsection \<open>Transformer.check_output_contents\<close>

definition generate_processing ::
  "pydict \<Rightarrow> collection list \<Rightarrow> collection list \<Rightarrow> collection list \<Rightarrow> db_write list \<Rightarrow> db_write list" where
  \<comment> \<open>the body is \<^verbatim>\<open>pass\<close>: nothing is written\<close>
  "generate_processing transform input_collections output_collections log_collections ws = ws"

definition set_status_statistics ::
  "pydict \<Rightarrow> TransformStatus \<Rightarrow> pydict \<Rightarrow> exn + pydict" where
  \<comment> \<open>the two assignments that end each branch:
      \<^verbatim>\<open>transform['status'] = s; transform['transform_metadata']['status_statistics'] = contents\<close>\<close>
  "set_status_statistics transform s contents =
     setitem2 (setitem transform (PyStr ''status'') (PyTransformStatus s))
       (PyStr ''transform_metadata'') (PyStr ''status_statistics'') (PyDict contents)"

definition check_output_contents ::
  "(int \<Rightarrow> pydict) \<Rightarrow> pydict \<Rightarrow> collection list \<Rightarrow> collection list \<Rightarrow> collection list
     \<Rightarrow> db_write list \<Rightarrow> (exn + pydict) \<times> db_write list" where
  "check_output_contents get_content_status_statistics transform
       input_collections output_collections log_collections ws =
     (if length input_collections > 1 \<or> length output_collections > 1 \<or> length log_collections > 1
      then (Inl (IDDSException unsupported), ws)
      else case output_collections of
        [] \<Rightarrow> (Inl IndexError, ws)
      | output_collection # _ \<Rightarrow>
          let contents = get_content_status_statistics (coll_id output_collection);
              content_status_keys = map fst contents
          in
          if content_status_keys = [PyContentStatus ContentStatus_Available]
             \<or> content_status_keys = [PyContentStatusValue ContentStatus_Available]
          then
            let ws1 = ws @ [core_catalog_update_collection (coll_id output_collection)
                      [(PyStr ''coll_status'', PyCollectionStatus CollectionStatus_Closed)]]
            in (set_status_statistics transform TransformStatus_Finished contents, ws1)
          else if content_status_keys = [PyContentStatus ContentStatus_FinalFailed]
             \<or> content_status_keys = [PyContentStatusValue ContentStatus_FinalFailed]
          then
            let ws1 = ws @ [core_catalog_update_collection (coll_id output_collection)
                      [(PyStr ''coll_status'', PyCollectionStatus CollectionStatus_Failed)]]
            in (set_status_statistics transform TransformStatus_Failed contents, ws1)
          else if length content_status_keys = 2
             \<and> (PyContentStatus ContentStatus_FinalFailed \<in> set content_status_keys
                \<or> PyContentStatusValue ContentStatus_FinalFailed \<in> set content_status_keys)
             \<and> (PyContentStatus ContentStatus_Available \<in> set content_status_keys
                \<or> PyContentStatusValue ContentStatus_Available \<in> set content_status_keys)
          then
            let ws1 = ws @ [core_catalog_update_collection (coll_id output_collection)
                      [(PyStr ''coll_status'', PyCollectionStatus CollectionStatus_SubClosed)]]
            in (set_status_statistics transform TransformStatus_SubFinished contents, ws1)
          else if PyContentStatus ContentStatus_New \<in> set content_status_keys
             \<or> PyContentStatusValue ContentStatus_New \<in> set content_status_keys
             \<or> PyContentStatus ContentStatus_Failed \<in> set content_status_keys
             \<or> PyContentStatusValue ContentStatus_Failed \<in> set content_status_keys
          then
            let ws1 = generate_processing transform input_collections output_collections log_collections ws
            in (set_status_statistics transform TransformStatus_Transforming contents, ws1)
          else (Inr transform, ws))"

subsection \<open>Transformer.process_monitor_transform\<close>

definition CollectionStatus_getattr :: "string \<Rightarrow> exn + CollectionStatus" where
  \<comment> \<open>\<^verbatim>\<open>CollectionStatus.<name>\<close>: a name that is no member raises AttributeError\<close>
  "CollectionStatus_getattr name =
     (if name = ''New'' then Inr CollectionStatus_New
      else if name = ''Open'' then Inr CollectionStatus_Open
      else if name = ''Update'' then Inr CollectionStatus_Update
      else if name = ''Updated'' then Inr CollectionStatus_Updated
      else if name = ''Closed'' then Inr CollectionStatus_Closed
      else if name = ''SubClosed'' then Inr CollectionStatus_SubClosed
      else if name = ''Failed'' then Inr CollectionStatus_Failed
      else Inl AttributeError)"

fun monitor_input_loop ::
  "pydict \<Rightarrow> collection list \<Rightarrow> collection list \<Rightarrow> collection list \<Rightarrow> collection list
     \<Rightarrow> db_write list \<Rightarrow> (exn + unit) \<times> db_write list" where
  \<comment> \<open>\<^verbatim>\<open>for coll in input_collections: if coll['coll_status'] == CollectionStatus.Updated: ...\<close>;
      the fifth argument is what is left of the list being walked\<close>
  "monitor_input_loop transform input_collections output_collections log_collections [] ws =
     (Inr (), ws)"
| "monitor_input_loop transform input_collections output_collections log_collections (coll # rest) ws =
     (if coll_status coll = CollectionStatus_Updated
      then (case fill_new_output_contents transform input_collections output_collections
                   log_collections ws of
              (Inl e, ws1) \<Rightarrow> (Inl e, ws1)
            | (Inr u, ws1) \<Rightarrow>
                monitor_input_loop transform input_collections output_collections log_collections
                  rest ws1)
      else monitor_input_loop transform input_collections output_collections log_collections
             rest ws)"

fun monitor_output_loop ::
  "(int \<Rightarrow> pydict) \<Rightarrow> pydict \<Rightarrow> collection list \<Rightarrow> collection list \<Rightarrow> collection list
     \<Rightarrow> collection list \<Rightarrow> db_write list \<Rightarrow> (exn + pydict option) \<times> db_write list" where
  \<comment> \<open>\<^verbatim>\<open>for coll in output_collections: if coll['coll_status'] == CollectionStatus.Updated1:
      return self.check_output_contents(...)\<close>; falling off the loop returns None\<close>
  "monitor_output_loop get_content_status_statistics transform input_collections
       output_collections log_collections [] ws =
     (Inr None, ws)"
| "monitor_output_loop get_content_status_statistics transform input_collections
       output_collections log_collections (coll # rest) ws =
     (case CollectionStatus_getattr ''Updated1'' of
        Inl e \<Rightarrow> (Inl e, ws)
      | Inr updated1 \<Rightarrow>
          if coll_status coll = updated1
          then (case check_output_contents get_content_status_statistics transform
                       input_collections output_collections log_collections ws of
                  (Inl e, ws1) \<Rightarrow> (Inl e, ws1)
                | (Inr transform1, ws1) \<Rightarrow> (Inr (Some transform1), ws1))
          else monitor_output_loop get_content_status_statistics transform input_collections
                 output_collections log_collections rest ws)"

definition process_monitor_transform ::
  "(pyval \<Rightarrow> collection list) \<Rightarrow> (int \<Rightarrow> pydict) \<Rightarrow> pydict \<Rightarrow> db_write list
     \<Rightarrow> (exn + pydict option) \<times> db_write list" where
  \<comment> \<open>here the answer of \<^verbatim>\<open>get_collections_by_request_transform_id\<close> is walked as a list of
      collections\<close>
  "process_monitor_transform get_collections_by_request_transform_id
       get_content_status_statistics transform ws =
     (case getitem transform (PyStr ''transform_id'') of
        Inl e \<Rightarrow> (Inl e, ws)
      | Inr transform_id \<Rightarrow>
          let collections = get_collections_by_request_transform_id transform_id;
              input_collections =
                filter (\<lambda>coll. relation_type coll = CollectionRelationType_Input) collections;
              output_collections =
                filter (\<lambda>coll. relation_type coll = CollectionRelationType_Output) collections;
              log_collections =
                filter (\<lambda>coll. relation_type coll = CollectionRelationType_Log) collections
          in (case monitor_input_loop transform input_collections output_collections
                     log_collections input_collections ws of
                (Inl e, ws1) \<Rightarrow> (Inl e, ws1)
              | (Inr u, ws1) \<Rightarrow>
                  monitor_output_loop get_content_status_statistics transform input_collections
                    output_collections log_collections output_collections ws1))"

subsection \<open>Transformer.process_new_transform\<close>

text \<open>
  Here the answer of \<^verbatim>\<open>get_collections_by_request_transform_id\<close> is used as a dictionary
  from request ids to dictionaries from transform ids to lists of collections. Both iterations
  walk the keys of the outer dictionary, as the source does. The state carried through them is
  the pair of the local variables \<^verbatim>\<open>collections\<close> and \<^verbatim>\<open>ret_transform\<close>.
\<close>

type_synonym collections_by_request_transform = "(pyval \<times> (pyval \<times> collection list) list) list"

fun new_inner_loop ::
  "pydict \<Rightarrow> collections_by_request_transform \<Rightarrow> pyval \<Rightarrow> pyval list
     \<Rightarrow> collection list \<times> pydict option \<Rightarrow> exn + collection list \<times> pydict option" where
  "new_inner_loop transform ret_collections request_id [] st = Inr st"
| "new_inner_loop transform ret_collections request_id (transform_id # rest) st =
     (case getitem transform (PyStr ''transform_id'') of
        Inl e \<Rightarrow> Inl e
      | Inr own_id \<Rightarrow>
          if transform_id = own_id
          then (case map_of ret_collections request_id of
                  None \<Rightarrow> Inl KeyError
                | Some by_transform \<Rightarrow>
                   (case map_of by_transform transform_id of
                      None \<Rightarrow> Inl KeyError
                    | Some collections \<Rightarrow>
                        new_inner_loop transform ret_collections request_id rest
                          (collections, Some transform)))
          else new_inner_loop transform ret_collections request_id rest st)"

fun new_outer_loop ::
  "pydict \<Rightarrow> collections_by_request_transform \<Rightarrow> pyval list
     \<Rightarrow> collection list \<times> pydict option \<Rightarrow> exn + collection list \<times> pydict option" where
  "new_outer_loop transform ret_collections [] st = Inr st"
| "new_outer_loop transform ret_collections (request_id # rest) st =
     (case new_inner_loop transform ret_collections request_id (map fst ret_collections) st of
        Inl e \<Rightarrow> Inl e
      | Inr st1 \<Rightarrow> new_outer_loop transform ret_collections rest st1)"

definition process_new_transform ::
  "(pyval \<Rightarrow> collections_by_request_transform)
     \<Rightarrow> (pydict \<Rightarrow> collection list \<Rightarrow> db_write list \<Rightarrow> (exn + pydict) \<times> db_write list)
     \<Rightarrow> pydict \<Rightarrow> db_write list \<Rightarrow> (exn + pydict) \<times> db_write list" where
  \<comment> \<open>\<^verbatim>\<open>generate_transform_outputs\<close> is a parameter: its text in the source does not parse\<close>
  "process_new_transform get_collections_by_request_transform_id generate_transform_outputs
       transform ws =
     (case getitem transform (PyStr ''transform_id'') of
        Inl e \<Rightarrow> (Inl e, ws)
      | Inr transform_id \<Rightarrow>
          let ret_collections = get_collections_by_request_transform_id transform_id
          in (case new_outer_loop transform ret_collections (map fst ret_collections) ([], None) of
               Inl e \<Rightarrow> (Inl e, ws)
             | Inr (collections, ret_transform) \<Rightarrow>
                (case ret_transform of
                   None \<Rightarrow> (Inr [], ws)
                 | Some rt \<Rightarrow>
                     if truthy (PyDict rt)
                     then (case getitem rt (PyStr ''transform_metadata'') of
                             Inl e \<Rightarrow> (Inl e, ws)
                           | Inr transform_metadata \<Rightarrow>
                              (case subscript transform_metadata (PyStr ''input_collection_changed'') of
                                 Inl e \<Rightarrow> (Inl e, ws)
                               | Inr input_collection_changed \<Rightarrow>
                                   if truthy input_collection_changed
                                   then generate_transform_outputs transform collections ws
                                   else (Inr [], ws)))
                     else (Inr [], ws))))"

subsection \<open>Transformer.finish_monitor_transforms\<close>

fun copy_keys :: "pyval list \<Rightarrow> pydict \<Rightarrow> pydict \<Rightarrow> pydict" where
  \<comment> \<open>\<^verbatim>\<open>for key in [...]: if key in transform: parameter[key] = transform[key]\<close>\<close>
  "copy_keys [] transform parameter = parameter"
| "copy_keys (key # keys) transform parameter =
     (case map_of transform key of
        Some v \<Rightarrow> copy_keys keys transform (setitem parameter key v)
      | None \<Rightarrow> copy_keys keys transform parameter)"

definition finish_monitor_transforms_body :: "pydict option \<Rightarrow> exn + db_write" where
  \<comment> \<open>the body of the \<^verbatim>\<open>while\<close> statement, for the item taken from the queue: what
      \<^verbatim>\<open>process_monitor_transform\<close> returned, a transform or None (on which
      \<^verbatim>\<open>key in transform\<close> raises TypeError)\<close>
  "finish_monitor_transforms_body item =
     (case item of
        None \<Rightarrow> Inl TypeError
      | Some transform \<Rightarrow>
          let parameter = copy_keys [PyStr ''status'', PyStr ''transform_metadata''] transform []
          in (case getitem transform (PyStr ''transform_id'') of
                Inl e \<Rightarrow> Inl e
              | Inr transform_id \<Rightarrow>
                  Inr (core_transforms_update_transform transform_id parameter)))"

fun finish_monitor_transforms ::
  "pydict option list \<Rightarrow> db_write list \<Rightarrow> (exn + unit) \<times> pydict option list \<times> db_write list" where
  \<comment> \<open>\<^verbatim>\<open>while not self.monitor_output_queue.empty()\<close>; nothing catches an exception of the
      body, so it ends the function with the rest of the queue undrained\<close>
  "finish_monitor_transforms [] ws = (Inr (), [], ws)"
| "finish_monitor_transforms (item # monitor_output_queue) ws =
     (case finish_monitor_transforms_body item of
        Inl e \<Rightarrow> (Inl e, monitor_output_queue, ws)
      | Inr w \<Rightarrow> finish_monitor_transforms monitor_output_queue (ws @ [w]))"

subsection \<open>The persistence layer\<close>

text \<open>
  Modelled from the spec: \<^verbatim>\<open>update_transform(transform_id, fields)\<close> of
  \<^verbatim>\<open>idds.core.transforms\<close>, whose text is not among the sources. The specification calls it
  "a narrow field-level update, not a full overwrite": in the row of that transform the
  fields given are assigned, and nothing else changes. The table of transforms is the
  list of its rows.
\<close>

definition update_fields :: "pydict \<Rightarrow> pydict \<Rightarrow> pydict" where
  "update_fields row params = fold (\<lambda>kv r. setitem r (fst kv) (snd kv)) params row"

definition update_transform :: "pydict list \<Rightarrow> pyval \<Rightarrow> pydict \<Rightarrow> pydict list" where
  "update_transform table transform_id params =
     map (\<lambda>row. if map_of row (PyStr ''transform_id'') = Some transform_id
                then update_fields row params else row) table"

fun apply_write :: "pydict list \<Rightarrow> db_write \<Rightarrow> pydict list" where
  "apply_write table (core_transforms_update_transform transform_id params) =
     update_transform table transform_id params"
| "apply_write table w = table"

definition apply_writes :: "pydict list \<Rightarrow> db_write list \<Rightarrow> pydict list" where
  "apply_writes table ws = fold (\<lambda>w t. apply_write t w) ws table"

text \<open>
  Modelled from the spec: \<^verbatim>\<open>get_transforms_by_status(status_set, period?)\<close> of
  \<^verbatim>\<open>idds.core.transforms\<close>, whose text is not among the sources: the rows whose status is
  in the set and, when a period is given, that have been unchanged for at least that many
  seconds (\<open>now\<close> is the time of the query, \<^verbatim>\<open>updated_at\<close> the time of the last change).
\<close>

definition status_in :: "pydict \<Rightarrow> TransformStatus list \<Rightarrow> bool" where
  "status_in row status =
     (case map_of row (PyStr ''status'') of
        Some (PyTransformStatus s) \<Rightarrow> s \<in> set status
      | _ \<Rightarrow> False)"

definition unchanged_for :: "pydict \<Rightarrow> int \<Rightarrow> int option \<Rightarrow> bool" where
  "unchanged_for row now period =
     (case period of
        None \<Rightarrow> True
      | Some p \<Rightarrow>
         (case map_of row (PyStr ''updated_at'') of
            Some (PyInt t) \<Rightarrow> t + p \<le> now
          | _ \<Rightarrow> False))"

definition get_transforms_by_status ::
  "pydict list \<Rightarrow> int \<Rightarrow> TransformStatus list \<Rightarrow> int option \<Rightarrow> pydict list" where
  "get_transforms_by_status table now status period =
     filter (\<lambda>row. status_in row status \<and> unchanged_for row now period) table"

subsection \<open>Transformer.get_new_transforms and Transformer.get_monitor_transforms\<close>

definition get_new_transforms ::
  "(TransformStatus list \<Rightarrow> int option \<Rightarrow> pydict list) \<Rightarrow> pydict list" where
  \<comment> \<open>the parameter is \<^verbatim>\<open>core_transforms.get_transforms_by_status\<close>, called without a period\<close>
  "get_new_transforms core_transforms_get_transforms_by_status =
     (let transform_status = [TransformStatus_Ready];
          transforms_new = core_transforms_get_transforms_by_status transform_status None
      in transforms_new)"

definition get_monitor_transforms ::
  "(TransformStatus list \<Rightarrow> int option \<Rightarrow> pydict list) \<Rightarrow> pydict list" where
  "get_monitor_transforms core_transforms_get_transforms_by_status =
     (let transform_status = [TransformStatus_Transforming];
          transforms = core_transforms_get_transforms_by_status transform_status (Some 3600)
      in transforms)"

subsection \<open>Transformer.run\<close>

text \<open>
  One pass of the \<^verbatim>\<open>while\<close> loop: what \<^verbatim>\<open>graceful_stop.is_set()\<close> answers at its head, and
  what the two calls of its body raise, if anything. The loop is run on the list of the
  passes that happen; when the list is used up the loop is still going.
\<close>

record iteration =
  graceful_stop_is_set :: bool
  prepare_finish_tasks_raises :: "exn option"
  sleep_for_tasks_raises :: "exn option"

datatype log_entry =
    logger_info string
  | logger_error exn
  | logger_critical exn

datatype run_end =
    Loop_left
  | Stop_called
  | Raised exn
  | Still_looping

definition iteration_body :: "iteration \<Rightarrow> exn option" where
  \<comment> \<open>\<^verbatim>\<open>self.prepare_finish_tasks(); self.sleep_for_tasks()\<close>\<close>
  "iteration_body it =
     (case prepare_finish_tasks_raises it of
        Some e \<Rightarrow> Some e
      | None \<Rightarrow> sleep_for_tasks_raises it)"

definition run_handlers :: "exn \<Rightarrow> log_entry option" where
  \<comment> \<open>the two \<^verbatim>\<open>except\<close> clauses inside the loop, in their order: the entry logged, or
      None when neither clause catches the exception\<close>
  "run_handlers error =
     (if is_IDDSException error then Some (logger_error error)
      else if is_Exception error then Some (logger_critical error)
      else None)"

fun run_loop :: "iteration list \<Rightarrow> log_entry list \<Rightarrow> run_end \<times> log_entry list" where
  "run_loop [] logs = (Still_looping, logs)"
| "run_loop (it # rest) logs =
     (if graceful_stop_is_set it then (Loop_left, logs)
      else case iteration_body it of
        None \<Rightarrow> run_loop rest logs
      | Some error \<Rightarrow>
         (case run_handlers error of
            Some entry \<Rightarrow> run_loop rest (logs @ [entry])
          | None \<Rightarrow> (Raised error, logs)))"

definition run :: "exn option \<Rightarrow> iteration list \<Rightarrow> run_end \<times> log_entry list" where
  \<comment> \<open>the first argument is what \<^verbatim>\<open>load_plugins\<close> and the submits before the loop raise, if
      anything; the outer handler catches KeyboardInterrupt only and calls \<^verbatim>\<open>self.stop()\<close>\<close>
  "run startup_raises iterations =
     (let logs = [logger_info ''Starting main thread'']
      in (case startup_raises of
            Some e \<Rightarrow> if e = KeyboardInterrupt then (Stop_called, logs) else (Raised e, logs)
          | None \<Rightarrow>
             (case run_loop iterations logs of
                (r, logs1) \<Rightarrow>
                  if r = Raised KeyboardInterrupt then (Stop_called, logs1) else (r, logs1))))"

subsection \<open>The statuses present in a statistics dictionary\<close>

fun key_status :: "pyval \<Rightarrow> ContentStatus option" where
  \<comment> \<open>the content status a key of the statistics stands for: a member or its value\<close>
  "key_status (PyContentStatus s) = Some s"
| "key_status (PyContentStatusValue s) = Some s"
| "key_status k = None"

definition statuses_present :: "pydict \<Rightarrow> ContentStatus set" where
  "statuses_present contents = set (List.map_filter key_status (map fst contents))"

definition status_keyed :: "pydict \<Rightarrow> bool" where
  \<comment> \<open>a mapping from content statuses to counts: every key is a status, and no status has
      two entries\<close>
  "status_keyed contents =
     (list_all (\<lambda>k. key_status k \<noteq> None) (map fst contents)
      \<and> distinct (map key_status (map fst contents)))"

section \<open>Properties\<close>

subsection \<open>Statuses present and the keys of the statistics\<close>

lemma key_status_Some:
  "key_status k = Some s \<longleftrightarrow> k = PyContentStatus s \<or> k = PyContentStatusValue s"
  by (cases k) auto

lemma statuses_present_Nil: "statuses_present [] = {}"
  by (simp add: statuses_present_def List.map_filter_simps)

lemma statuses_present_Cons:
  "statuses_present (kv # contents) =
     (case key_status (fst kv) of None \<Rightarrow> statuses_present contents
      | Some s \<Rightarrow> insert s (statuses_present contents))"
  by (simp add: statuses_present_def List.map_filter_simps split: option.splits)

lemma statuses_present_mem:
  "s \<in> statuses_present contents \<longleftrightarrow>
     PyContentStatus s \<in> set (map fst contents) \<or> PyContentStatusValue s \<in> set (map fst contents)"
proof (induction contents)
  case Nil
  show ?case by (simp add: statuses_present_Nil)
next
  case (Cons kv contents)
  show ?case
  proof (cases "key_status (fst kv)")
    case None
    then have "fst kv \<noteq> PyContentStatus s" "fst kv \<noteq> PyContentStatusValue s" by auto
    with None Cons show ?thesis by (auto simp: statuses_present_Cons)
  next
    case (Some a)
    then have "fst kv = PyContentStatus a \<or> fst kv = PyContentStatusValue a"
      by (simp add: key_status_Some)
    with Some Cons show ?thesis by (auto simp: statuses_present_Cons)
  qed
qed

lemma status_keyed_card:
  assumes "status_keyed contents"
  shows "card (statuses_present contents) = length contents"
  using assms
proof (induction contents)
  case Nil
  show ?case by (simp add: statuses_present_Nil)
next
  case (Cons kv contents)
  from Cons.prems obtain a where a: "key_status (fst kv) = Some a"
    by (auto simp: status_keyed_def)
  from Cons.prems have rest: "status_keyed contents"
    by (simp add: status_keyed_def)
  from Cons.prems a have "Some a \<notin> set (map key_status (map fst contents))"
    by (simp add: status_keyed_def)
  then have "a \<notin> statuses_present contents"
  proof (rule contrapos_nn)
    assume "a \<in> statuses_present contents"
    then obtain k where "k \<in> set (map fst contents)" "key_status k = Some a"
      unfolding statuses_present_mem using key_status.simps(1,2) by blast
    then show "Some a \<in> set (map key_status (map fst contents))"
      by (metis image_eqI set_map)
  qed
  moreover have "finite (statuses_present contents)" by (simp add: statuses_present_def)
  ultimately show ?case using a Cons.IH [OF rest] by (simp add: statuses_present_Cons)
qed

lemma statuses_single:
  assumes "status_keyed contents"
  shows "map fst contents = [PyContentStatus a] \<or> map fst contents = [PyContentStatusValue a]
     \<longleftrightarrow> statuses_present contents = {a}"
proof
  assume S: "statuses_present contents = {a}"
  with status_keyed_card [OF assms] have "length contents = 1" by simp
  then obtain kv where c: "contents = [kv]" by (cases contents) auto
  from S have "a \<in> statuses_present contents" by simp
  with c show "map fst contents = [PyContentStatus a] \<or> map fst contents = [PyContentStatusValue a]"
    by (auto simp: statuses_present_mem)
next
  assume "map fst contents = [PyContentStatus a] \<or> map fst contents = [PyContentStatusValue a]"
  then obtain kv where "contents = [kv]" "fst kv = PyContentStatus a \<or> fst kv = PyContentStatusValue a"
    by (cases contents) auto
  then show "statuses_present contents = {a}"
    by (auto simp: statuses_present_Cons statuses_present_Nil)
qed

lemma statuses_pair:
  assumes "status_keyed contents" and "a \<noteq> b"
  shows "length contents = 2
     \<and> (PyContentStatus b \<in> fst ` set contents \<or> PyContentStatusValue b \<in> fst ` set contents)
     \<and> (PyContentStatus a \<in> fst ` set contents \<or> PyContentStatusValue a \<in> fst ` set contents)
    \<longleftrightarrow> statuses_present contents = {a, b}"
proof
  assume S: "statuses_present contents = {a, b}"
  with status_keyed_card [OF assms(1)] assms(2) have "length contents = 2" by simp
  moreover from S have "a \<in> statuses_present contents" "b \<in> statuses_present contents" by simp_all
  ultimately show "length contents = 2
     \<and> (PyContentStatus b \<in> fst ` set contents \<or> PyContentStatusValue b \<in> fst ` set contents)
     \<and> (PyContentStatus a \<in> fst ` set contents \<or> PyContentStatusValue a \<in> fst ` set contents)"
    by (simp add: statuses_present_mem)
next
  assume R: "length contents = 2
     \<and> (PyContentStatus b \<in> fst ` set contents \<or> PyContentStatusValue b \<in> fst ` set contents)
     \<and> (PyContentStatus a \<in> fst ` set contents \<or> PyContentStatusValue a \<in> fst ` set contents)"
  then have ab: "a \<in> statuses_present contents" "b \<in> statuses_present contents"
    by (simp_all add: statuses_present_mem)
  from R status_keyed_card [OF assms(1)] have "card (statuses_present contents) = 2" by simp
  moreover have "finite (statuses_present contents)" by (simp add: statuses_present_def)
  moreover have "{a, b} \<subseteq> statuses_present contents" using ab by simp
  moreover have "card {a, b} = 2" using assms(2) by simp
  ultimately show "statuses_present contents = {a, b}"
    by (metis card_subset_eq)
qed

lemma check_output_contents_by_statuses:
  assumes "length input_collections \<le> 1" and "output_collections = [output_collection]"
    and "length log_collections \<le> 1"
    and "get_content_status_statistics (coll_id output_collection) = contents"
    and "status_keyed contents"
  shows "check_output_contents get_content_status_statistics transform input_collections
           output_collections log_collections ws =
     (if statuses_present contents = {ContentStatus_Available}
      then (set_status_statistics transform TransformStatus_Finished contents,
            ws @ [core_catalog_update_collection (coll_id output_collection)
                    [(PyStr ''coll_status'', PyCollectionStatus CollectionStatus_Closed)]])
      else if statuses_present contents = {ContentStatus_FinalFailed}
      then (set_status_statistics transform TransformStatus_Failed contents,
            ws @ [core_catalog_update_collection (coll_id output_collection)
                    [(PyStr ''coll_status'', PyCollectionStatus CollectionStatus_Failed)]])
      else if statuses_present contents = {ContentStatus_Available, ContentStatus_FinalFailed}
      then (set_status_statistics transform TransformStatus_SubFinished contents,
            ws @ [core_catalog_update_collection (coll_id output_collection)
                    [(PyStr ''coll_status'', PyCollectionStatus CollectionStatus_SubClosed)]])
      else if ContentStatus_New \<in> statuses_present contents
              \<or> ContentStatus_Failed \<in> statuses_present contents
      then (set_status_statistics transform TransformStatus_Transforming contents, ws)
      else (Inr transform, ws))"
proof -
  have p: "length contents = 2
     \<and> (PyContentStatus ContentStatus_FinalFailed \<in> fst ` set contents
         \<or> PyContentStatusValue ContentStatus_FinalFailed \<in> fst ` set contents)
     \<and> (PyContentStatus ContentStatus_Available \<in> fst ` set contents
         \<or> PyContentStatusValue ContentStatus_Available \<in> fst ` set contents)
    \<longleftrightarrow> statuses_present contents = {ContentStatus_Available, ContentStatus_FinalFailed}"
    by (rule statuses_pair [OF assms(5)]) simp
  have n: "PyContentStatus ContentStatus_New \<in> fst ` set contents
         \<or> PyContentStatusValue ContentStatus_New \<in> fst ` set contents
         \<or> PyContentStatus ContentStatus_Failed \<in> fst ` set contents
         \<or> PyContentStatusValue ContentStatus_Failed \<in> fst ` set contents
    \<longleftrightarrow> ContentStatus_New \<in> statuses_present contents
              \<or> ContentStatus_Failed \<in> statuses_present contents"
    by (auto simp: statuses_present_mem)
  show ?thesis
    using assms(1,3)
    unfolding check_output_contents_def assms(2) list.case Let_def assms(4) generate_processing_def
    by (simp only: statuses_single [OF assms(5)] p n set_map length_map) simp
qed

subsection \<open>The aggregator\<close>

lemma set_status_statistics_Inr:
  assumes "map_of transform (PyStr ''transform_metadata'') = Some (PyDict md)"
  shows "\<exists>t' md'. set_status_statistics transform s contents = Inr t'
     \<and> map_of t' (PyStr ''status'') = Some (PyTransformStatus s)
     \<and> map_of t' (PyStr ''transform_metadata'') = Some (PyDict md')
     \<and> map_of md' (PyStr ''status_statistics'') = Some (PyDict contents)"
  using assms
  by (simp add: set_status_statistics_def setitem2_def setitem_def update_conv')

text \<open>
  Claim C1. The aggregator decides on the set of the statuses present in the statistics,
  whatever the counts: for a mapping from content statuses to counts (every key a status,
  as a member or as its value, one entry for each status), the one Output collection of
  the transform and a transform whose \<^verbatim>\<open>transform_metadata\<close> is a dictionary,
  exactly \<open>{Available}\<close> gives transform Finished and collection Closed,
  exactly \<open>{FinalFailed}\<close> gives Failed and Failed,
  exactly \<open>{Available, FinalFailed}\<close> gives SubFinished and SubClosed,
  otherwise New or Failed among the statuses gives Transforming (and no write),
  and anything else returns the transform as it was, with no write.
\<close>

theorem check_output_contents_precedence:
  assumes "length input_collections \<le> 1" and "output_collections = [output_collection]"
    and "length log_collections \<le> 1"
    and "get_content_status_statistics (coll_id output_collection) = contents"
    and "status_keyed contents"
    and "map_of transform (PyStr ''transform_metadata'') = Some (PyDict md)"
  shows "let S = statuses_present contents;
             r = check_output_contents get_content_status_statistics transform input_collections
                   output_collections log_collections ws
         in (S = {ContentStatus_Available} \<longrightarrow>
               (\<exists>t'. r = (Inr t', ws @ [core_catalog_update_collection (coll_id output_collection)
                            [(PyStr ''coll_status'', PyCollectionStatus CollectionStatus_Closed)]])
                  \<and> map_of t' (PyStr ''status'') = Some (PyTransformStatus TransformStatus_Finished)))
          \<and> (S = {ContentStatus_FinalFailed} \<longrightarrow>
               (\<exists>t'. r = (Inr t', ws @ [core_catalog_update_collection (coll_id output_collection)
                            [(PyStr ''coll_status'', PyCollectionStatus CollectionStatus_Failed)]])
                  \<and> map_of t' (PyStr ''status'') = Some (PyTransformStatus TransformStatus_Failed)))
          \<and> (S = {ContentStatus_Available, ContentStatus_FinalFailed} \<longrightarrow>
               (\<exists>t'. r = (Inr t', ws @ [core_catalog_update_collection (coll_id output_collection)
                            [(PyStr ''coll_status'', PyCollectionStatus CollectionStatus_SubClosed)]])
                  \<and> map_of t' (PyStr ''status'') = Some (PyTransformStatus TransformStatus_SubFinished)))
          \<and> (S \<noteq> {ContentStatus_Available} \<and> S \<noteq> {ContentStatus_FinalFailed}
               \<and> S \<noteq> {ContentStatus_Available, ContentStatus_FinalFailed}
               \<and> (ContentStatus_New \<in> S \<or> ContentStatus_Failed \<in> S) \<longrightarrow>
               (\<exists>t'. r = (Inr t', ws)
                  \<and> map_of t' (PyStr ''status'') = Some (PyTransformStatus TransformStatus_Transforming)))
          \<and> (S \<noteq> {ContentStatus_Available} \<and> S \<noteq> {ContentStatus_FinalFailed}
               \<and> S \<noteq> {ContentStatus_Available, ContentStatus_FinalFailed}
               \<and> ContentStatus_New \<notin> S \<and> ContentStatus_Failed \<notin> S \<longrightarrow>
               r = (Inr transform, ws))"
proof -
  note by_statuses = check_output_contents_by_statuses
    [where get_content_status_statistics = get_content_status_statistics and contents = contents,
     OF assms(1-5)]
  have attach: "\<exists>t'. set_status_statistics transform s contents = Inr t'
     \<and> map_of t' (PyStr ''status'') = Some (PyTransformStatus s)" for s
    using set_status_statistics_Inr [OF assms(6)] by blast
  have ne: "{ContentStatus_FinalFailed} \<noteq> {ContentStatus_Available}"
    "{ContentStatus_Available, ContentStatus_FinalFailed} \<noteq> {ContentStatus_Available}"
    "{ContentStatus_Available, ContentStatus_FinalFailed} \<noteq> {ContentStatus_FinalFailed}"
    by auto
  show ?thesis
    unfolding Let_def by_statuses
    using attach [of TransformStatus_Finished] attach [of TransformStatus_Failed]
      attach [of TransformStatus_SubFinished] attach [of TransformStatus_Transforming] ne
    by auto
qed

theorem check_output_contents_precedence_witness:
  "(\<exists>t'. check_output_contents
        (\<lambda>i. [(PyContentStatus ContentStatus_Available, PyInt 2),
               (PyContentStatus ContentStatus_FinalFailed, PyInt 1)])
        [(PyStr ''transform_id'', PyInt 1),
         (PyStr ''status'', PyTransformStatus TransformStatus_Transforming),
         (PyStr ''transform_metadata'', PyDict [])]
        []
        [\<lparr>coll_id = 7, relation_type = CollectionRelationType_Output,
          coll_status = CollectionStatus_Updated, coll_metadata = []\<rparr>]
        [] []
      = (Inr t', [core_catalog_update_collection 7
                    [(PyStr ''coll_status'', PyCollectionStatus CollectionStatus_SubClosed)]])
    \<and> map_of t' (PyStr ''status'') = Some (PyTransformStatus TransformStatus_SubFinished))
   \<and> (\<exists>t'. check_output_contents
        (\<lambda>i. [(PyContentStatusValue ContentStatus_New, PyInt 1),
               (PyContentStatusValue ContentStatus_Available, PyInt 4)])
        [(PyStr ''transform_id'', PyInt 1),
         (PyStr ''status'', PyTransformStatus TransformStatus_SubFinished),
         (PyStr ''transform_metadata'', PyDict [])]
        []
        [\<lparr>coll_id = 7, relation_type = CollectionRelationType_Output,
          coll_status = CollectionStatus_Updated, coll_metadata = []\<rparr>]
        [] []
      = (Inr t', [])
    \<and> map_of t' (PyStr ''status'') = Some (PyTransformStatus TransformStatus_Transforming))"
proof -
  let ?oc = "\<lparr>coll_id = 7, relation_type = CollectionRelationType_Output,
          coll_status = CollectionStatus_Updated, coll_metadata = []\<rparr>"
  let ?c1 = "[(PyContentStatus ContentStatus_Available, PyInt 2),
               (PyContentStatus ContentStatus_FinalFailed, PyInt 1)]"
  let ?c2 = "[(PyContentStatusValue ContentStatus_New, PyInt 1),
               (PyContentStatusValue ContentStatus_Available, PyInt 4)]"
  have s1: "statuses_present ?c1 = {ContentStatus_Available, ContentStatus_FinalFailed}"
    by (simp add: statuses_present_def List.map_filter_simps)
  have s2: "statuses_present ?c2 = {ContentStatus_New, ContentStatus_Available}"
    by (simp add: statuses_present_def List.map_filter_simps)
  have k1: "status_keyed ?c1" and k2: "status_keyed ?c2"
    by (simp_all add: status_keyed_def)
  have n2: "{ContentStatus_New, ContentStatus_Available} \<noteq> {ContentStatus_Available}"
    "{ContentStatus_New, ContentStatus_Available} \<noteq> {ContentStatus_FinalFailed}"
    "{ContentStatus_New, ContentStatus_Available} \<noteq> {ContentStatus_Available, ContentStatus_FinalFailed}"
    by auto
  from check_output_contents_precedence
    [where input_collections = "[]" and output_collections = "[?oc]" and output_collection = ?oc
       and log_collections = "[]" and get_content_status_statistics = "\<lambda>i. ?c1" and contents = ?c1
       and md = "[]" and ws = "[]"
       and transform = "[(PyStr ''transform_id'', PyInt 1),
         (PyStr ''status'', PyTransformStatus TransformStatus_Transforming),
         (PyStr ''transform_metadata'', PyDict [])]", OF _ _ _ _ k1]
  have first: "\<exists>t'. check_output_contents (\<lambda>i. ?c1)
        [(PyStr ''transform_id'', PyInt 1),
         (PyStr ''status'', PyTransformStatus TransformStatus_Transforming),
         (PyStr ''transform_metadata'', PyDict [])] [] [?oc] [] []
      = (Inr t', [core_catalog_update_collection 7
                    [(PyStr ''coll_status'', PyCollectionStatus CollectionStatus_SubClosed)]])
    \<and> map_of t' (PyStr ''status'') = Some (PyTransformStatus TransformStatus_SubFinished)"
    unfolding Let_def s1 by simp
  from check_output_contents_precedence
    [where input_collections = "[]" and output_collections = "[?oc]" and output_collection = ?oc
       and log_collections = "[]" and get_content_status_statistics = "\<lambda>i. ?c2" and contents = ?c2
       and md = "[]" and ws = "[]"
       and transform = "[(PyStr ''transform_id'', PyInt 1),
         (PyStr ''status'', PyTransformStatus TransformStatus_SubFinished),
         (PyStr ''transform_metadata'', PyDict [])]", OF _ _ _ _ k2]
  have second: "\<exists>t'. check_output_contents (\<lambda>i. ?c2)
        [(PyStr ''transform_id'', PyInt 1),
         (PyStr ''status'', PyTransformStatus TransformStatus_SubFinished),
         (PyStr ''transform_metadata'', PyDict [])] [] [?oc] [] []
      = (Inr t', [])
    \<and> map_of t' (PyStr ''status'') = Some (PyTransformStatus TransformStatus_Transforming)"
    unfolding Let_def s2 using n2 by simp
  from first second show ?thesis by blast
qed

text \<open>
  Claim C4, as amended. The statistics are attached to \<^verbatim>\<open>transform_metadata\<close> in each of
  the four branches that make a transition (Finished, Failed, SubFinished, Transforming).
  In the remaining case no assignment is made at all: the transform comes back as it
  was, so nothing is attached.
\<close>

theorem status_statistics_attached_on_transition:
  assumes "length input_collections \<le> 1" and "output_collections = [output_collection]"
    and "length log_collections \<le> 1"
    and "get_content_status_statistics (coll_id output_collection) = contents"
    and "status_keyed contents"
    and "map_of transform (PyStr ''transform_metadata'') = Some (PyDict md)"
  shows "let S = statuses_present contents;
             r = check_output_contents get_content_status_statistics transform input_collections
                   output_collections log_collections ws
         in (S = {ContentStatus_Available} \<or> S = {ContentStatus_FinalFailed}
               \<or> S = {ContentStatus_Available, ContentStatus_FinalFailed}
               \<or> ContentStatus_New \<in> S \<or> ContentStatus_Failed \<in> S \<longrightarrow>
               (\<exists>t' md' ws'. r = (Inr t', ws')
                  \<and> map_of t' (PyStr ''transform_metadata'') = Some (PyDict md')
                  \<and> map_of md' (PyStr ''status_statistics'') = Some (PyDict contents)))
          \<and> (S \<noteq> {ContentStatus_Available} \<and> S \<noteq> {ContentStatus_FinalFailed}
               \<and> S \<noteq> {ContentStatus_Available, ContentStatus_FinalFailed}
               \<and> ContentStatus_New \<notin> S \<and> ContentStatus_Failed \<notin> S \<longrightarrow>
               r = (Inr transform, ws))"
proof -
  note by_statuses = check_output_contents_by_statuses
    [where get_content_status_statistics = get_content_status_statistics and contents = contents,
     OF assms(1-5)]
  have attach: "\<exists>t' md'. set_status_statistics transform s contents = Inr t'
     \<and> map_of t' (PyStr ''transform_metadata'') = Some (PyDict md')
     \<and> map_of md' (PyStr ''status_statistics'') = Some (PyDict contents)" for s
    using set_status_statistics_Inr [OF assms(6)] by blast
  show ?thesis
    unfolding Let_def by_statuses
    using attach [of TransformStatus_Finished] attach [of TransformStatus_Failed]
      attach [of TransformStatus_SubFinished] attach [of TransformStatus_Transforming]
    by auto
qed

theorem status_statistics_attached_on_transition_witness:
  "\<exists>t' md' ws'. check_output_contents
        (\<lambda>i. [(PyContentStatus ContentStatus_Available, PyInt 5)])
        [(PyStr ''transform_id'', PyInt 1),
         (PyStr ''status'', PyTransformStatus TransformStatus_Transforming),
         (PyStr ''transform_metadata'', PyDict [(PyStr ''input_collection_changed'', PyBool False)])]
        []
        [\<lparr>coll_id = 7, relation_type = CollectionRelationType_Output,
          coll_status = CollectionStatus_Updated, coll_metadata = []\<rparr>]
        [] []
      = (Inr t', ws')
    \<and> map_of t' (PyStr ''transform_metadata'') = Some (PyDict md')
    \<and> map_of md' (PyStr ''status_statistics'')
        = Some (PyDict [(PyContentStatus ContentStatus_Available, PyInt 5)])"
proof -
  let ?oc = "\<lparr>coll_id = 7, relation_type = CollectionRelationType_Output,
          coll_status = CollectionStatus_Updated, coll_metadata = []\<rparr>"
  let ?c = "[(PyContentStatus ContentStatus_Available, PyInt 5)]"
  have s: "statuses_present ?c = {ContentStatus_Available}"
    by (simp add: statuses_present_def List.map_filter_simps)
  have k: "status_keyed ?c"
    by (simp add: status_keyed_def)
  from status_statistics_attached_on_transition
    [where input_collections = "[]" and output_collections = "[?oc]" and output_collection = ?oc
       and log_collections = "[]" and get_content_status_statistics = "\<lambda>i. ?c" and contents = ?c
       and md = "[(PyStr ''input_collection_changed'', PyBool False)]" and ws = "[]"
       and transform = "[(PyStr ''transform_id'', PyInt 1),
         (PyStr ''status'', PyTransformStatus TransformStatus_Transforming),
         (PyStr ''transform_metadata'', PyDict [(PyStr ''input_collection_changed'', PyBool False)])]",
     OF _ _ _ _ k]
  show ?thesis
    unfolding Let_def s by simp
qed

text \<open>
  What the claim says of the branch without a transition fails: with no content at all,
  and with contents that are Available and of another status, the transform is returned
  with the metadata it had, which has no \<^verbatim>\<open>status_statistics\<close>.
\<close>

theorem status_statistics_not_attached_counterexample:
  "check_output_contents (\<lambda>i. [])
     [(PyStr ''transform_id'', PyInt 1),
      (PyStr ''status'', PyTransformStatus TransformStatus_Transforming),
      (PyStr ''transform_metadata'', PyDict [(PyStr ''input_collection_changed'', PyBool False)])]
     []
     [\<lparr>coll_id = 7, relation_type = CollectionRelationType_Output,
       coll_status = CollectionStatus_Updated, coll_metadata = []\<rparr>]
     [] []
   = (Inr [(PyStr ''transform_id'', PyInt 1),
           (PyStr ''status'', PyTransformStatus TransformStatus_Transforming),
           (PyStr ''transform_metadata'', PyDict [(PyStr ''input_collection_changed'', PyBool False)])],
      [])
   \<and> check_output_contents
     (\<lambda>i. [(PyContentStatus ContentStatus_Available, PyInt 2),
            (PyContentStatus (ContentStatus_Other 0), PyInt 1)])
     [(PyStr ''transform_id'', PyInt 1),
      (PyStr ''status'', PyTransformStatus TransformStatus_Transforming),
      (PyStr ''transform_metadata'', PyDict [(PyStr ''input_collection_changed'', PyBool False)])]
     []
     [\<lparr>coll_id = 7, relation_type = CollectionRelationType_Output,
       coll_status = CollectionStatus_Updated, coll_metadata = []\<rparr>]
     [] []
   = (Inr [(PyStr ''transform_id'', PyInt 1),
           (PyStr ''status'', PyTransformStatus TransformStatus_Transforming),
           (PyStr ''transform_metadata'', PyDict [(PyStr ''input_collection_changed'', PyBool False)])],
      [])
   \<and> getitem [(PyStr ''input_collection_changed'', PyBool False)] (PyStr ''status_statistics'')
       = Inl KeyError"
  by (simp add: check_output_contents_def getitem_def)

text \<open>
  Claim C10, as amended. The guards look for more than one collection only. When they
  pass, \<^verbatim>\<open>fill_new_output_contents\<close> raises IndexError, with no write, as soon as the list
  of Input or of Output collections is empty; \<^verbatim>\<open>check_output_contents\<close> raises it, with
  no write, when the list of Output collections is empty, and never otherwise: it does
  not index the list of Input collections.
\<close>

theorem empty_collection_list_index_error:
  assumes "length input_collections \<le> 1" and "length output_collections \<le> 1"
    and "length log_collections \<le> 1"
  shows "(input_collections = [] \<or> output_collections = [] \<longrightarrow>
            fill_new_output_contents transform input_collections output_collections
              log_collections ws = (Inl IndexError, ws))
       \<and> (output_collections = [] \<longrightarrow>
            check_output_contents get_content_status_statistics transform input_collections
              output_collections log_collections ws = (Inl IndexError, ws))
       \<and> (output_collections \<noteq> [] \<longrightarrow>
            fst (check_output_contents get_content_status_statistics transform input_collections
              output_collections log_collections ws) \<noteq> Inl IndexError)"
proof (intro conjI impI)
  assume "input_collections = [] \<or> output_collections = []"
  with assms show "fill_new_output_contents transform input_collections output_collections
              log_collections ws = (Inl IndexError, ws)"
    by (auto simp: fill_new_output_contents_def split: list.splits)
next
  assume "output_collections = []"
  with assms show "check_output_contents get_content_status_statistics transform input_collections
              output_collections log_collections ws = (Inl IndexError, ws)"
    by (simp add: check_output_contents_def)
next
  assume "output_collections \<noteq> []"
  then obtain oc rest where oc: "output_collections = oc # rest" by (cases output_collections) auto
  have s: "set_status_statistics transform s c \<noteq> Inl IndexError" for s c
    by (simp add: set_status_statistics_def setitem2_def split: option.splits pyval.splits)
  show "fst (check_output_contents get_content_status_statistics transform input_collections
              output_collections log_collections ws) \<noteq> Inl IndexError"
    using assms s unfolding check_output_contents_def oc by (simp add: Let_def)
qed

theorem empty_collection_list_index_error_witness:
  "fill_new_output_contents [(PyStr ''transform_id'', PyInt 1)] []
     [\<lparr>coll_id = 7, relation_type = CollectionRelationType_Output,
       coll_status = CollectionStatus_Updated, coll_metadata = []\<rparr>]
     [] [] = (Inl IndexError, [])
   \<and> fst (check_output_contents (\<lambda>i. []) [(PyStr ''transform_id'', PyInt 1)] []
     [\<lparr>coll_id = 7, relation_type = CollectionRelationType_Output,
       coll_status = CollectionStatus_Updated, coll_metadata = []\<rparr>]
     [] []) \<noteq> Inl IndexError
   \<and> check_output_contents (\<lambda>i. []) [(PyStr ''transform_id'', PyInt 1)]
     [\<lparr>coll_id = 6, relation_type = CollectionRelationType_Input,
       coll_status = CollectionStatus_Open, coll_metadata = []\<rparr>]
     [] [] [] = (Inl IndexError, [])"
  using empty_collection_list_index_error
    [of "[]" "[\<lparr>coll_id = 7, relation_type = CollectionRelationType_Output,
       coll_status = CollectionStatus_Updated, coll_metadata = []\<rparr>]" "[]"
       "[(PyStr ''transform_id'', PyInt 1)]" "[]" "\<lambda>i. []"]
    empty_collection_list_index_error
    [of "[\<lparr>coll_id = 6, relation_type = CollectionRelationType_Input,
       coll_status = CollectionStatus_Open, coll_metadata = []\<rparr>]" "[]" "[]"
       "[(PyStr ''transform_id'', PyInt 1)]" "[]" "\<lambda>i. []"]
  by simp

text \<open>
  The claim as stated fails twice. With no Input collection and one Output collection the
  aggregator runs to its end. With no Input collection and two Output collections the
  content-splitting step raises the configuration error, not IndexError.
\<close>

theorem empty_input_list_counterexample:
  "check_output_contents (\<lambda>i. [(PyContentStatus ContentStatus_Available, PyInt 5)])
     [(PyStr ''transform_id'', PyInt 1),
      (PyStr ''status'', PyTransformStatus TransformStatus_Transforming),
      (PyStr ''transform_metadata'', PyDict [])]
     []
     [\<lparr>coll_id = 7, relation_type = CollectionRelationType_Output,
       coll_status = CollectionStatus_Updated, coll_metadata = []\<rparr>]
     [] []
   = (Inr [(PyStr ''transform_id'', PyInt 1),
           (PyStr ''status'', PyTransformStatus TransformStatus_Finished),
           (PyStr ''transform_metadata'',
            PyDict [(PyStr ''status_statistics'',
                     PyDict [(PyContentStatus ContentStatus_Available, PyInt 5)])])],
      [core_catalog_update_collection 7
         [(PyStr ''coll_status'', PyCollectionStatus CollectionStatus_Closed)]])
   \<and> fill_new_output_contents [(PyStr ''transform_id'', PyInt 1)] []
     [\<lparr>coll_id = 7, relation_type = CollectionRelationType_Output,
       coll_status = CollectionStatus_Updated, coll_metadata = []\<rparr>,
      \<lparr>coll_id = 8, relation_type = CollectionRelationType_Output,
       coll_status = CollectionStatus_Open, coll_metadata = []\<rparr>]
     [] [] = (Inl (IDDSException unsupported), [])"
  by (simp add: check_output_contents_def fill_new_output_contents_def
      set_status_statistics_def setitem2_def setitem_def)

subsection \<open>The monitor path\<close>

text \<open>
  The loop over the Output collections never reaches the aggregator: its first pass
  raises AttributeError, whatever the status of the collection.
\<close>

theorem monitor_output_loop_raises:
  "monitor_output_loop get_content_status_statistics transform input_collections
     output_collections log_collections rest ws =
   (if rest = [] then (Inr None, ws) else (Inl AttributeError, ws))"
  by (cases rest) (simp_all add: CollectionStatus_getattr_def)

lemma fill_new_output_contents_Updated_no_write:
  assumes "input_collections = input_collection # rest"
    and "coll_status input_collection = CollectionStatus_Updated"
  shows "snd (fill_new_output_contents transform input_collections output_collections
           log_collections ws) = ws"
  using assms by (simp add: fill_new_output_contents_def split: list.splits)

text \<open>
  Claim C2, on the code. The monitor path compares the status of an Output collection
  with \<^verbatim>\<open>CollectionStatus.Updated1\<close>, which is no member of the enumeration. For a
  transform with an Output collection that is Updated and whose five contents are all
  Available, the path ends in AttributeError with no write; the aggregator, had it been
  run on the same collections, would have closed the collection and finished the
  transform.
\<close>

theorem updated_output_collection_not_aggregated:
  "process_monitor_transform
     (\<lambda>i. [\<lparr>coll_id = 6, relation_type = CollectionRelationType_Input,
              coll_status = CollectionStatus_Open, coll_metadata = []\<rparr>,
            \<lparr>coll_id = 7, relation_type = CollectionRelationType_Output,
              coll_status = CollectionStatus_Updated, coll_metadata = []\<rparr>])
     (\<lambda>i. [(PyContentStatus ContentStatus_Available, PyInt 5)])
     [(PyStr ''transform_id'', PyInt 1),
      (PyStr ''status'', PyTransformStatus TransformStatus_Transforming),
      (PyStr ''transform_metadata'', PyDict [])]
     []
   = (Inl AttributeError, [])
   \<and> check_output_contents
     (\<lambda>i. [(PyContentStatus ContentStatus_Available, PyInt 5)])
     [(PyStr ''transform_id'', PyInt 1),
      (PyStr ''status'', PyTransformStatus TransformStatus_Transforming),
      (PyStr ''transform_metadata'', PyDict [])]
     [\<lparr>coll_id = 6, relation_type = CollectionRelationType_Input,
       coll_status = CollectionStatus_Open, coll_metadata = []\<rparr>]
     [\<lparr>coll_id = 7, relation_type = CollectionRelationType_Output,
       coll_status = CollectionStatus_Updated, coll_metadata = []\<rparr>]
     [] []
   = (Inr [(PyStr ''transform_id'', PyInt 1),
           (PyStr ''status'', PyTransformStatus TransformStatus_Finished),
           (PyStr ''transform_metadata'',
            PyDict [(PyStr ''status_statistics'',
                     PyDict [(PyContentStatus ContentStatus_Available, PyInt 5)])])],
      [core_catalog_update_collection 7
         [(PyStr ''coll_status'', PyCollectionStatus CollectionStatus_Closed)]])"
  by (simp add: process_monitor_transform_def getitem_def CollectionStatus_getattr_def
      check_output_contents_def set_status_statistics_def setitem2_def setitem_def)

text \<open>
  Claim C3, on the code. The monitor path calls \<^verbatim>\<open>fill_new_output_contents\<close> for an Input
  collection that is Updated, and that function does its work only for one that is
  \<^verbatim>\<open>Update\<close>. For an Updated Input collection whose metadata say closed, the function
  writes nothing and the path then ends in AttributeError with no write; with the status
  \<^verbatim>\<open>Update\<close> the same call registers the contents, closes the Input collection and marks
  the Output collection Updated.
\<close>

theorem updated_input_collection_not_filled:
  "fill_new_output_contents
     [(PyStr ''transform_id'', PyInt 1),
      (PyStr ''status'', PyTransformStatus TransformStatus_Transforming),
      (PyStr ''transform_metadata'', PyDict [])]
     [\<lparr>coll_id = 6, relation_type = CollectionRelationType_Input,
       coll_status = CollectionStatus_Updated,
       coll_metadata = [(PyStr ''ddm_status'', PyStr ''closed'')]\<rparr>]
     [\<lparr>coll_id = 7, relation_type = CollectionRelationType_Output,
       coll_status = CollectionStatus_Open, coll_metadata = []\<rparr>]
     [] []
   = (Inr (), [])
   \<and> process_monitor_transform
     (\<lambda>i. [\<lparr>coll_id = 6, relation_type = CollectionRelationType_Input,
              coll_status = CollectionStatus_Updated,
              coll_metadata = [(PyStr ''ddm_status'', PyStr ''closed'')]\<rparr>,
            \<lparr>coll_id = 7, relation_type = CollectionRelationType_Output,
              coll_status = CollectionStatus_Open, coll_metadata = []\<rparr>])
     (\<lambda>i. [])
     [(PyStr ''transform_id'', PyInt 1),
      (PyStr ''status'', PyTransformStatus TransformStatus_Transforming),
      (PyStr ''transform_metadata'', PyDict [])]
     []
   = (Inl AttributeError, [])
   \<and> fill_new_output_contents
     [(PyStr ''transform_id'', PyInt 1),
      (PyStr ''status'', PyTransformStatus TransformStatus_Transforming),
      (PyStr ''transform_metadata'', PyDict [])]
     [\<lparr>coll_id = 6, relation_type = CollectionRelationType_Input,
       coll_status = CollectionStatus_Update,
       coll_metadata = [(PyStr ''ddm_status'', PyStr ''closed'')]\<rparr>]
     [\<lparr>coll_id = 7, relation_type = CollectionRelationType_Output,
       coll_status = CollectionStatus_Open, coll_metadata = []\<rparr>]
     [] []
   = (Inr (),
      [core_catalog_add_contents PyNone,
       core_catalog_update_collection 6
         [(PyStr ''coll_status'', PyCollectionStatus CollectionStatus_Closed)],
       core_catalog_update_collection 7
         [(PyStr ''coll_status'', PyCollectionStatus CollectionStatus_Updated)]])"
  by (simp add: process_monitor_transform_def fill_new_output_contents_def getitem_def
      CollectionStatus_getattr_def get_new_output_contents_def)

subsection \<open>The new-transform path\<close>

lemma new_inner_loop_ret_transform:
  assumes "map_of transform (PyStr ''transform_id'') = Some transform_id"
    and "map_of ret_collections request_id = Some by_transform"
    and "map_of by_transform transform_id \<noteq> None"
    and "snd st = None \<or> snd st = Some transform"
  shows "\<exists>st'. new_inner_loop transform ret_collections request_id ks st = Inr st'
           \<and> (snd st' = None \<or> snd st' = Some transform)"
  using assms(4)
proof (induction ks arbitrary: st)
  case Nil
  then show ?case by simp
next
  case (Cons k ks)
  show ?case
  proof (cases "k = transform_id")
    case True
    from assms(3) obtain collections where c: "map_of by_transform transform_id = Some collections"
      by auto
    have "snd (collections, Some transform) = None \<or> snd (collections, Some transform) = Some transform"
      by simp
    from Cons.IH [OF this] show ?thesis
      using True assms(1,2) c by (simp add: getitem_def)
  next
    case False
    with Cons.IH [OF Cons.prems] show ?thesis
      using assms(1) by (simp add: getitem_def)
  qed
qed

lemma new_outer_loop_ret_transform:
  assumes "map_of transform (PyStr ''transform_id'') = Some transform_id"
    and "list_all (\<lambda>by_transform. map_of by_transform transform_id \<noteq> None)
           (map snd ret_collections)"
    and "set rs \<subseteq> fst ` set ret_collections"
    and "snd st = None \<or> snd st = Some transform"
  shows "\<exists>st'. new_outer_loop transform ret_collections rs st = Inr st'
           \<and> (snd st' = None \<or> snd st' = Some transform)"
  using assms(3,4)
proof (induction rs arbitrary: st)
  case Nil
  then show ?case by simp
next
  case (Cons r rs)
  from Cons.prems(1) have "r \<in> fst ` set ret_collections" by simp
  then obtain by_transform where m: "map_of ret_collections r = Some by_transform"
    by (metis map_of_eq_None_iff not_Some_eq)
  then have "(r, by_transform) \<in> set ret_collections" by (rule map_of_SomeD)
  with assms(2) have b: "map_of by_transform transform_id \<noteq> None"
    by (auto simp: list_all_iff)
  from new_inner_loop_ret_transform [OF assms(1) m b Cons.prems(2)]
  obtain st1 where st1: "new_inner_loop transform ret_collections r (map fst ret_collections) st = Inr st1"
    "snd st1 = None \<or> snd st1 = Some transform" by blast
  from Cons.prems(1) have "set rs \<subseteq> fst ` set ret_collections" by simp
  from Cons.IH [OF this st1(2)] show ?case using st1(1) by simp
qed

text \<open>
  Claim C6. For a transform whose \<^verbatim>\<open>transform_metadata\<close> has
  \<^verbatim>\<open>input_collection_changed\<close> false, a Ready one in particular, and an answer of the
  catalog in which every group of a request has an entry for this transform, the
  new-transform path returns the empty dictionary and makes no write. The function never
  assigns to the transform, and as nothing is written the Ready transforms of the table
  are the ones that were Ready before the call.
\<close>

theorem process_new_transform_input_unchanged:
  assumes "map_of transform (PyStr ''transform_id'') = Some transform_id"
    and "map_of transform (PyStr ''transform_metadata'') = Some (PyDict md)"
    and "map_of md (PyStr ''input_collection_changed'') = Some (PyBool False)"
    and "list_all (\<lambda>by_transform. map_of by_transform transform_id \<noteq> None)
           (map snd (get_collections_by_request_transform_id transform_id))"
  shows "process_new_transform get_collections_by_request_transform_id generate_transform_outputs
           transform ws = (Inr [], ws)
       \<and> get_transforms_by_status
             (apply_writes table (snd (process_new_transform
                get_collections_by_request_transform_id generate_transform_outputs transform ws)))
             now [TransformStatus_Ready] None
           = get_transforms_by_status (apply_writes table ws) now [TransformStatus_Ready] None"
proof -
  let ?ret = "get_collections_by_request_transform_id transform_id"
  have "snd ([] :: collection list, None :: pydict option) = None
          \<or> snd ([] :: collection list, None :: pydict option) = Some transform" by simp
  from new_outer_loop_ret_transform [OF assms(1) assms(4) _ this, of "map fst ?ret"]
  obtain collections ret_transform where
    l: "new_outer_loop transform ?ret (map fst ?ret) ([], None) = Inr (collections, ret_transform)"
    and r: "ret_transform = None \<or> ret_transform = Some transform"
    by auto
  from r have "process_new_transform get_collections_by_request_transform_id
      generate_transform_outputs transform ws = (Inr [], ws)"
  proof
    assume "ret_transform = None"
    with l assms(1) show ?thesis
      by (simp add: process_new_transform_def getitem_def)
  next
    assume "ret_transform = Some transform"
    with l assms(1,2,3) show ?thesis
      by (simp add: process_new_transform_def getitem_def subscript_def)
  qed
  then show ?thesis by simp
qed


theorem process_new_transform_input_unchanged_witness:
  "process_new_transform
     (\<lambda>i. [(PyInt 5, [(PyInt 1,
         [\<lparr>coll_id = 6, relation_type = CollectionRelationType_Input,
           coll_status = CollectionStatus_Open, coll_metadata = []\<rparr>])])])
     (\<lambda>t c ws. (Inl TypeError, ws))
     [(PyStr ''transform_id'', PyInt 1),
      (PyStr ''status'', PyTransformStatus TransformStatus_Ready),
      (PyStr ''transform_metadata'', PyDict [(PyStr ''input_collection_changed'', PyBool False)])]
     [] = (Inr [], [])
   \<and> process_new_transform
     (\<lambda>i. [(PyInt 1, [(PyInt 1,
         [\<lparr>coll_id = 6, relation_type = CollectionRelationType_Input,
           coll_status = CollectionStatus_Open, coll_metadata = []\<rparr>])])])
     (\<lambda>t c ws. (Inl TypeError, ws))
     [(PyStr ''transform_id'', PyInt 1),
      (PyStr ''status'', PyTransformStatus TransformStatus_Ready),
      (PyStr ''transform_metadata'', PyDict [(PyStr ''input_collection_changed'', PyBool False)])]
     [] = (Inr [], [])"
  using process_new_transform_input_unchanged
    [of "[(PyStr ''transform_id'', PyInt 1),
      (PyStr ''status'', PyTransformStatus TransformStatus_Ready),
      (PyStr ''transform_metadata'', PyDict [(PyStr ''input_collection_changed'', PyBool False)])]"
      "PyInt 1" "[(PyStr ''input_collection_changed'', PyBool False)]"
      "\<lambda>i. [(PyInt 5, [(PyInt 1,
         [\<lparr>coll_id = 6, relation_type = CollectionRelationType_Input,
           coll_status = CollectionStatus_Open, coll_metadata = []\<rparr>])])]"
      "\<lambda>t c ws. (Inl TypeError, ws)" "[]"]
    process_new_transform_input_unchanged
    [of "[(PyStr ''transform_id'', PyInt 1),
      (PyStr ''status'', PyTransformStatus TransformStatus_Ready),
      (PyStr ''transform_metadata'', PyDict [(PyStr ''input_collection_changed'', PyBool False)])]"
      "PyInt 1" "[(PyStr ''input_collection_changed'', PyBool False)]"
      "\<lambda>i. [(PyInt 1, [(PyInt 1,
         [\<lparr>coll_id = 6, relation_type = CollectionRelationType_Input,
           coll_status = CollectionStatus_Open, coll_metadata = []\<rparr>])])]"
      "\<lambda>t c ws. (Inl TypeError, ws)" "[]"]
  by simp

subsection \<open>Draining the monitor results\<close>






text \<open>
  When every item of the queue is a transform with a \<^verbatim>\<open>transform_id\<close>, the whole queue
  is drained, with one call of \<^verbatim>\<open>update_transform\<close> for each item, in the order of
  the queue.
\<close>

theorem finish_monitor_transforms_drains:
  assumes "list_all (\<lambda>item. \<exists>w. finish_monitor_transforms_body item = Inr w) monitor_output_queue"
  shows "\<exists>ws'. finish_monitor_transforms monitor_output_queue ws = (Inr (), [], ws @ ws')
           \<and> list_all2 (\<lambda>item w. finish_monitor_transforms_body item = Inr w)
                monitor_output_queue ws'"
  using assms
proof (induction monitor_output_queue arbitrary: ws)
  case Nil
  show ?case by simp
next
  case (Cons item queue)
  from Cons.prems obtain w where w: "finish_monitor_transforms_body item = Inr w" by auto
  from Cons.prems have "list_all (\<lambda>item. \<exists>w. finish_monitor_transforms_body item = Inr w) queue"
    by simp
  from Cons.IH [OF this, of "ws @ [w]"] obtain ws' where
    "finish_monitor_transforms queue (ws @ [w]) = (Inr (), [], (ws @ [w]) @ ws')"
    "list_all2 (\<lambda>item w. finish_monitor_transforms_body item = Inr w) queue ws'" by blast
  with w have "finish_monitor_transforms (item # queue) ws = (Inr (), [], ws @ (w # ws'))
       \<and> list_all2 (\<lambda>item w. finish_monitor_transforms_body item = Inr w) (item # queue) (w # ws')"
    by simp
  then show ?case by blast
qed

theorem finish_monitor_transforms_drains_witness:
  "finish_monitor_transforms
     [Some [(PyStr ''transform_id'', PyInt 1),
            (PyStr ''status'', PyTransformStatus TransformStatus_Finished)],
      Some [(PyStr ''transform_id'', PyInt 2),
            (PyStr ''transform_metadata'', PyDict [])]] []
   = (Inr (), [],
      [core_transforms_update_transform (PyInt 1)
         [(PyStr ''status'', PyTransformStatus TransformStatus_Finished)],
       core_transforms_update_transform (PyInt 2)
         [(PyStr ''transform_metadata'', PyDict [])]])"
  using finish_monitor_transforms_drains
    [of "[Some [(PyStr ''transform_id'', PyInt 1),
            (PyStr ''status'', PyTransformStatus TransformStatus_Finished)],
      Some [(PyStr ''transform_id'', PyInt 2),
            (PyStr ''transform_metadata'', PyDict [])]]" "[]"]
  by (simp add: finish_monitor_transforms_body_def getitem_def setitem_def)

subsection \<open>The two queries of a cycle\<close>

lemma status_in_singleton:
  "status_in row [s] \<longleftrightarrow> map_of row (PyStr ''status'') = Some (PyTransformStatus s)"
  by (auto simp: status_in_def split: option.splits pyval.splits)

text \<open>
  Claim C8. The new-transform query asks for the status list \<open>[Ready]\<close> with no period,
  the monitor query for \<open>[Transforming]\<close> with a period of 3600 seconds, and the two
  lists have no status in common. Whatever \<^verbatim>\<open>get_transforms_by_status\<close> is at the time of
  each query, as long as it answers with rows of the table that have one of the statuses
  asked for, and a \<^verbatim>\<open>transform_id\<close> names one row of the table: no transform selected
  by the first query has the \<^verbatim>\<open>transform_id\<close> of one selected by the second.
\<close>

theorem new_and_monitor_selections_disjoint:
  assumes "\<And>status period. \<forall>row \<in> set (g1 status period). row \<in> set table \<and> status_in row status"
    and "\<And>status period. \<forall>row \<in> set (g2 status period). row \<in> set table \<and> status_in row status"
    and "distinct (map (\<lambda>row. map_of row (PyStr ''transform_id'')) table)"
  shows "get_new_transforms g1 = g1 [TransformStatus_Ready] None
       \<and> get_monitor_transforms g2 = g2 [TransformStatus_Transforming] (Some 3600)
       \<and> set [TransformStatus_Ready] \<inter> set [TransformStatus_Transforming] = {}
       \<and> (\<forall>t1 \<in> set (get_new_transforms g1).
           \<forall>t2 \<in> set (get_monitor_transforms g2).
             map_of t1 (PyStr ''transform_id'') \<noteq> map_of t2 (PyStr ''transform_id''))"
proof -
  from assms(3) have inj: "inj_on (\<lambda>row. map_of row (PyStr ''transform_id'')) (set table)"
    by (simp add: distinct_map)
  have "map_of t1 (PyStr ''transform_id'') \<noteq> map_of t2 (PyStr ''transform_id'')"
    if "t1 \<in> set (get_new_transforms g1)" and "t2 \<in> set (get_monitor_transforms g2)" for t1 t2
  proof
    assume same: "map_of t1 (PyStr ''transform_id'') = map_of t2 (PyStr ''transform_id'')"
    from that(1) assms(1) [of "[TransformStatus_Ready]" None] have t1: "t1 \<in> set table"
      "map_of t1 (PyStr ''status'') = Some (PyTransformStatus TransformStatus_Ready)"
      by (simp_all add: get_new_transforms_def status_in_singleton)
    from that(2) assms(2) [of "[TransformStatus_Transforming]" "Some 3600"] have t2: "t2 \<in> set table"
      "map_of t2 (PyStr ''status'') = Some (PyTransformStatus TransformStatus_Transforming)"
      by (simp_all add: get_monitor_transforms_def status_in_singleton)
    from inj t1(1) t2(1) same have "t1 = t2" by (meson inj_onD)
    with t1(2) t2(2) show False by simp
  qed
  then show ?thesis
    by (simp add: get_new_transforms_def get_monitor_transforms_def)
qed

lemma get_transforms_by_status_selects:
  "\<forall>row \<in> set (get_transforms_by_status table now status period).
     row \<in> set table \<and> status_in row status"
  by (simp add: get_transforms_by_status_def)

theorem new_and_monitor_selections_disjoint_witness:
  "get_new_transforms (get_transforms_by_status
      [[(PyStr ''transform_id'', PyInt 1),
        (PyStr ''status'', PyTransformStatus TransformStatus_Ready),
        (PyStr ''updated_at'', PyInt 100)],
       [(PyStr ''transform_id'', PyInt 2),
        (PyStr ''status'', PyTransformStatus TransformStatus_Transforming),
        (PyStr ''updated_at'', PyInt 100)],
       [(PyStr ''transform_id'', PyInt 3),
        (PyStr ''status'', PyTransformStatus TransformStatus_Transforming),
        (PyStr ''updated_at'', PyInt 9000)]] 10000)
   = [[(PyStr ''transform_id'', PyInt 1),
       (PyStr ''status'', PyTransformStatus TransformStatus_Ready),
       (PyStr ''updated_at'', PyInt 100)]]
   \<and> get_monitor_transforms (get_transforms_by_status
      [[(PyStr ''transform_id'', PyInt 1),
        (PyStr ''status'', PyTransformStatus TransformStatus_Ready),
        (PyStr ''updated_at'', PyInt 100)],
       [(PyStr ''transform_id'', PyInt 2),
        (PyStr ''status'', PyTransformStatus TransformStatus_Transforming),
        (PyStr ''updated_at'', PyInt 100)],
       [(PyStr ''transform_id'', PyInt 3),
        (PyStr ''status'', PyTransformStatus TransformStatus_Transforming),
        (PyStr ''updated_at'', PyInt 9000)]] 10020)
   = [[(PyStr ''transform_id'', PyInt 2),
       (PyStr ''status'', PyTransformStatus TransformStatus_Transforming),
       (PyStr ''updated_at'', PyInt 100)]]"
proof -
  let ?table = "[[(PyStr ''transform_id'', PyInt 1),
        (PyStr ''status'', PyTransformStatus TransformStatus_Ready),
        (PyStr ''updated_at'', PyInt 100)],
       [(PyStr ''transform_id'', PyInt 2),
        (PyStr ''status'', PyTransformStatus TransformStatus_Transforming),
        (PyStr ''updated_at'', PyInt 100)],
       [(PyStr ''transform_id'', PyInt 3),
        (PyStr ''status'', PyTransformStatus TransformStatus_Transforming),
        (PyStr ''updated_at'', PyInt 9000)]]"
  have d: "distinct (map (\<lambda>row. map_of row (PyStr ''transform_id'')) ?table)" by simp
  from new_and_monitor_selections_disjoint
    [of "get_transforms_by_status ?table 10000" ?table "get_transforms_by_status ?table 10020",
     OF get_transforms_by_status_selects get_transforms_by_status_selects d]
  show ?thesis
    by (simp add: get_transforms_by_status_def status_in_def unchanged_for_def)
qed


subsection \<open>The main loop\<close>

lemma run_handlers_None: "run_handlers e = None \<longleftrightarrow> \<not> is_Exception e"
  by (cases e) (simp_all add: run_handlers_def)

lemma run_handlers_Some:
  "is_Exception e \<Longrightarrow>
   run_handlers e = Some (if is_IDDSException e then logger_error e else logger_critical e)"
  by (simp add: run_handlers_def)

lemma run_loop_continues:
  assumes "list_all (\<lambda>it. \<not> graceful_stop_is_set it
             \<and> (case iteration_body it of None \<Rightarrow> True | Some e \<Rightarrow> is_Exception e)) iterations"
  shows "run_loop iterations logs =
     (Still_looping,
      logs @ List.map_filter
        (\<lambda>it. case iteration_body it of None \<Rightarrow> None | Some e \<Rightarrow> run_handlers e) iterations)"
  using assms
proof (induction iterations arbitrary: logs)
  case Nil
  show ?case by simp
next
  case (Cons it rest)
  from Cons.prems have rest: "list_all (\<lambda>it. \<not> graceful_stop_is_set it
      \<and> (case iteration_body it of None \<Rightarrow> True | Some e \<Rightarrow> is_Exception e)) rest"
    and stop: "\<not> graceful_stop_is_set it" by simp_all
  show ?case
  proof (cases "iteration_body it")
    case None
    with stop Cons.IH [OF rest] show ?thesis by simp
  next
    case (Some e)
    with Cons.prems have "is_Exception e" by simp
    then obtain entry where "run_handlers e = Some entry"
      using run_handlers_None [of e] by auto
    with Some stop Cons.IH [OF rest] show ?thesis by simp
  qed
qed

lemma run_loop_exits:
  "(fst (run_loop iterations logs) = Loop_left \<longrightarrow>
      (\<exists>it \<in> set iterations. graceful_stop_is_set it))
   \<and> (fst (run_loop iterations logs) = Raised e \<longrightarrow>
      \<not> is_Exception e \<and> (\<exists>it \<in> set iterations. iteration_body it = Some e))
   \<and> fst (run_loop iterations logs) \<noteq> Stop_called"
proof (induction iterations arbitrary: logs)
  case Nil
  show ?case by simp
next
  case (Cons it rest)
  show ?case
  proof (cases "graceful_stop_is_set it")
    case True
    then show ?thesis by simp
  next
    case False
    show ?thesis
    proof (cases "iteration_body it")
      case None
      with False Cons.IH [of logs] show ?thesis by simp
    next
      case (Some err)
      show ?thesis
      proof (cases "run_handlers err")
        case None
        then have "\<not> is_Exception err" by (simp add: run_handlers_None)
        with None \<open>iteration_body it = Some err\<close> False show ?thesis by auto
      next
        case (Some entry)
        with \<open>iteration_body it = Some err\<close> False Cons.IH [of "logs @ [entry]"]
        show ?thesis by simp
      qed
    qed
  qed
qed

text \<open>
  Claim C9. Where every exception an iteration raises is an \<^verbatim>\<open>Exception\<close> (an
  IDDSException or any other) or a KeyboardInterrupt: an iteration that raises an
  \<^verbatim>\<open>Exception\<close> adds one entry to the log, an error for an IDDSException and a
  critical one otherwise, and the loop goes on with the next iteration; as long as no stop
  is signalled and no KeyboardInterrupt is raised the loop is still going, with one entry
  for each iteration that raised; the loop is left only when the stop signal is set, and
  \<^verbatim>\<open>stop\<close> is called only on a KeyboardInterrupt; it ends in no other way.
\<close>

theorem run_logs_and_continues:
  assumes "list_all (\<lambda>it. case iteration_body it of None \<Rightarrow> True
             | Some e \<Rightarrow> is_Exception e \<or> e = KeyboardInterrupt) iterations"
  shows "(\<forall>it rest logs e. \<not> graceful_stop_is_set it \<and> iteration_body it = Some e
              \<and> is_Exception e \<longrightarrow>
            run_loop (it # rest) logs =
              run_loop rest
                (logs @ [if is_IDDSException e then logger_error e else logger_critical e]))
       \<and> (list_all (\<lambda>it. \<not> graceful_stop_is_set it
              \<and> iteration_body it \<noteq> Some KeyboardInterrupt) iterations \<longrightarrow>
            run None iterations =
              (Still_looping,
               logger_info ''Starting main thread'' #
               List.map_filter
                 (\<lambda>it. case iteration_body it of None \<Rightarrow> None | Some e \<Rightarrow> run_handlers e)
                 iterations))
       \<and> (fst (run None iterations) = Loop_left \<longrightarrow>
            (\<exists>it \<in> set iterations. graceful_stop_is_set it))
       \<and> (fst (run None iterations) = Stop_called \<longrightarrow>
            (\<exists>it \<in> set iterations. iteration_body it = Some KeyboardInterrupt))
       \<and> fst (run None iterations) \<in> {Still_looping, Loop_left, Stop_called}"
proof -
  let ?start = "[logger_info ''Starting main thread'']"
  have step: "run_loop (it # rest) logs =
      run_loop rest (logs @ [if is_IDDSException e then logger_error e else logger_critical e])"
    if "\<not> graceful_stop_is_set it" "iteration_body it = Some e" "is_Exception e"
    for it rest logs e
    using that by (simp add: run_handlers_Some)
  have continues: "run None iterations =
              (Still_looping,
               logger_info ''Starting main thread'' #
               List.map_filter
                 (\<lambda>it. case iteration_body it of None \<Rightarrow> None | Some e \<Rightarrow> run_handlers e)
                 iterations)"
    if quiet: "list_all (\<lambda>it. \<not> graceful_stop_is_set it
              \<and> iteration_body it \<noteq> Some KeyboardInterrupt) iterations"
  proof -
    from assms quiet have "list_all (\<lambda>it. \<not> graceful_stop_is_set it
             \<and> (case iteration_body it of None \<Rightarrow> True | Some e \<Rightarrow> is_Exception e)) iterations"
      by (auto simp: list_all_iff split: option.splits)
    from run_loop_continues [OF this, of ?start] show ?thesis
      by (simp add: run_def)
  qed
  have raised: "e = KeyboardInterrupt \<and> (\<exists>it \<in> set iterations. iteration_body it = Some e)"
    if "fst (run_loop iterations ?start) = Raised e" for e
  proof -
    from that run_loop_exits [of iterations ?start e]
    have n: "\<not> is_Exception e" and "\<exists>it \<in> set iterations. iteration_body it = Some e"
      by simp_all
    then obtain it where it: "it \<in> set iterations" "iteration_body it = Some e" by blast
    with assms have "is_Exception e \<or> e = KeyboardInterrupt"
      by (auto simp: list_all_iff)
    with n it show ?thesis by blast
  qed
  obtain r logs1 where r: "run_loop iterations ?start = (r, logs1)" by (cases "run_loop iterations ?start")
  have run: "fst (run None iterations) = (if r = Raised KeyboardInterrupt then Stop_called else r)"
    using r by (simp add: run_def)
  have left: "\<exists>it \<in> set iterations. graceful_stop_is_set it" if "fst (run None iterations) = Loop_left"
    using that run r run_loop_exits [of iterations ?start KeyboardInterrupt]
    by (auto split: if_splits)
  have stopped: "\<exists>it \<in> set iterations. iteration_body it = Some KeyboardInterrupt"
    if "fst (run None iterations) = Stop_called"
  proof -
    from that run have "r = Raised KeyboardInterrupt \<or> r = Stop_called" by (auto split: if_splits)
    moreover have "r \<noteq> Stop_called" using r run_loop_exits [of iterations ?start KeyboardInterrupt] by simp
    ultimately have "fst (run_loop iterations ?start) = Raised KeyboardInterrupt" using r by simp
    from raised [OF this] show ?thesis by simp
  qed
  have ends: "fst (run None iterations) \<in> {Still_looping, Loop_left, Stop_called}"
  proof (cases r)
    case (Raised e)
    with r have "fst (run_loop iterations ?start) = Raised e" by simp
    from raised [OF this] Raised run show ?thesis by simp
  next
    case Stop_called
    with r run_loop_exits [of iterations ?start KeyboardInterrupt] show ?thesis by simp
  qed (use run in simp_all)
  from step continues left stopped ends show ?thesis by blast
qed

theorem run_logs_and_continues_witness:
  "run None
     [\<lparr>graceful_stop_is_set = False,
       prepare_finish_tasks_raises = Some (IDDSException ''no connection''),
       sleep_for_tasks_raises = None\<rparr>,
      \<lparr>graceful_stop_is_set = False,
       prepare_finish_tasks_raises = Some TypeError,
       sleep_for_tasks_raises = None\<rparr>,
      \<lparr>graceful_stop_is_set = False,
       prepare_finish_tasks_raises = None,
       sleep_for_tasks_raises = None\<rparr>]
   = (Still_looping,
      [logger_info ''Starting main thread'',
       logger_error (IDDSException ''no connection''),
       logger_critical TypeError])"
  using run_logs_and_continues
    [of "[\<lparr>graceful_stop_is_set = False,
       prepare_finish_tasks_raises = Some (IDDSException ''no connection''),
       sleep_for_tasks_raises = None\<rparr>,
      \<lparr>graceful_stop_is_set = False,
       prepare_finish_tasks_raises = Some TypeError,
       sleep_for_tasks_raises = None\<rparr>,
      \<lparr>graceful_stop_is_set = False,
       prepare_finish_tasks_raises = None,
       sleep_for_tasks_raises = None\<rparr>]"]
  by (simp add: iteration_body_def run_handlers_def)

text \<open>
  An exception outside \<^verbatim>\<open>Exception\<close> other than KeyboardInterrupt is caught by no clause
  of \<^verbatim>\<open>run\<close> and leaves it.
\<close>

lemma run_SystemExit_propagates:
  "run None
     [\<lparr>graceful_stop_is_set = False,
       prepare_finish_tasks_raises = Some SystemExit,
       sleep_for_tasks_raises = None\<rparr>]
   = (Raised SystemExit, [logger_info ''Starting main thread''])"
  by (simp add: run_def iteration_body_def run_handlers_def)

subsection \<open>The monitor path on more than one collection\<close>

lemma monitor_input_loop_unsupported:
  assumes "length input_collections > 1 \<or> length output_collections > 1
             \<or> length log_collections > 1"
    and "\<exists>coll \<in> set rest. coll_status coll = CollectionStatus_Updated"
  shows "monitor_input_loop transform input_collections output_collections log_collections
           rest ws = (Inl (IDDSException unsupported), ws)"
  using assms(2)
proof (induction rest)
  case Nil
  then show ?case by simp
next
  case (Cons coll rest)
  show ?case
  proof (cases "coll_status coll = CollectionStatus_Updated")
    case True
    with assms(1) show ?thesis by (simp add: fill_new_output_contents_def)
  next
    case False
    with Cons show ?thesis by simp
  qed
qed

lemma monitor_input_loop_not_Updated:
  assumes "\<forall>coll \<in> set rest. coll_status coll \<noteq> CollectionStatus_Updated"
  shows "monitor_input_loop transform input_collections output_collections log_collections
           rest ws = (Inr (), ws)"
  using assms by (induction rest) simp_all

text \<open>
  Claim C5, as amended. On collections with more than one Input, more than one Output or
  more than one Log collection, each of the two steps, the content-splitting step
  \<^verbatim>\<open>fill_new_output_contents\<close> and the aggregator \<^verbatim>\<open>check_output_contents\<close>, raises the
  IDDSException with the message about unsupported transforms when it is run, and adds no
  write. The monitor path runs the content-splitting step for an Input collection that is
  Updated: when the collections fetched for the transform are such and one of the Input
  collections is Updated, the path ends in that error and nothing has been written. When
  no Input collection is Updated the step is not run; with no Output collection the path
  then returns None, with no error and no write.
\<close>

theorem more_than_one_collection_monitor_path:
  assumes "length input_collections > 1 \<or> length output_collections > 1
             \<or> length log_collections > 1"
  shows "fill_new_output_contents transform input_collections output_collections
           log_collections ws = (Inl (IDDSException unsupported), ws)
       \<and> check_output_contents get_content_status_statistics transform input_collections
           output_collections log_collections ws = (Inl (IDDSException unsupported), ws)
       \<and> (map_of transform (PyStr ''transform_id'') = Some transform_id
            \<and> filter (\<lambda>coll. relation_type coll = CollectionRelationType_Input)
                 (get_collections_by_request_transform_id transform_id) = input_collections
            \<and> filter (\<lambda>coll. relation_type coll = CollectionRelationType_Output)
                 (get_collections_by_request_transform_id transform_id) = output_collections
            \<and> filter (\<lambda>coll. relation_type coll = CollectionRelationType_Log)
                 (get_collections_by_request_transform_id transform_id) = log_collections
          \<longrightarrow>
            ((\<exists>coll \<in> set input_collections. coll_status coll = CollectionStatus_Updated) \<longrightarrow>
               process_monitor_transform get_collections_by_request_transform_id
                 get_content_status_statistics transform ws
               = (Inl (IDDSException unsupported), ws))
          \<and> ((\<forall>coll \<in> set input_collections. coll_status coll \<noteq> CollectionStatus_Updated)
               \<and> output_collections = [] \<longrightarrow>
               process_monitor_transform get_collections_by_request_transform_id
                 get_content_status_statistics transform ws
               = (Inr None, ws)))"
proof -
  have steps: "fill_new_output_contents transform input_collections output_collections
           log_collections ws = (Inl (IDDSException unsupported), ws)
       \<and> check_output_contents get_content_status_statistics transform input_collections
           output_collections log_collections ws = (Inl (IDDSException unsupported), ws)"
    using assms by (simp add: fill_new_output_contents_def check_output_contents_def)
  have raised: "process_monitor_transform get_collections_by_request_transform_id
                 get_content_status_statistics transform ws
               = (Inl (IDDSException unsupported), ws)"
    if "map_of transform (PyStr ''transform_id'') = Some transform_id"
      and "filter (\<lambda>coll. relation_type coll = CollectionRelationType_Input)
                 (get_collections_by_request_transform_id transform_id) = input_collections"
      and "filter (\<lambda>coll. relation_type coll = CollectionRelationType_Output)
                 (get_collections_by_request_transform_id transform_id) = output_collections"
      and "filter (\<lambda>coll. relation_type coll = CollectionRelationType_Log)
                 (get_collections_by_request_transform_id transform_id) = log_collections"
      and "\<exists>coll \<in> set input_collections. coll_status coll = CollectionStatus_Updated"
    using monitor_input_loop_unsupported [OF assms that(5), of transform ws] that(1-4)
    by (simp add: process_monitor_transform_def getitem_def)
  have skipped: "process_monitor_transform get_collections_by_request_transform_id
                 get_content_status_statistics transform ws
               = (Inr None, ws)"
    if "map_of transform (PyStr ''transform_id'') = Some transform_id"
      and "filter (\<lambda>coll. relation_type coll = CollectionRelationType_Input)
                 (get_collections_by_request_transform_id transform_id) = input_collections"
      and "filter (\<lambda>coll. relation_type coll = CollectionRelationType_Output)
                 (get_collections_by_request_transform_id transform_id) = output_collections"
      and "filter (\<lambda>coll. relation_type coll = CollectionRelationType_Log)
                 (get_collections_by_request_transform_id transform_id) = log_collections"
      and "\<forall>coll \<in> set input_collections. coll_status coll \<noteq> CollectionStatus_Updated"
      and "output_collections = []"
    using monitor_input_loop_not_Updated
        [OF that(5), of transform input_collections output_collections log_collections ws]
      that(1-4,6)
    by (simp add: process_monitor_transform_def getitem_def)
  from steps raised skipped show ?thesis by blast
qed

theorem more_than_one_collection_monitor_path_witness:
  "fill_new_output_contents [(PyStr ''transform_id'', PyInt 1)]
     [\<lparr>coll_id = 5, relation_type = CollectionRelationType_Input,
       coll_status = CollectionStatus_Open, coll_metadata = []\<rparr>,
      \<lparr>coll_id = 6, relation_type = CollectionRelationType_Input,
       coll_status = CollectionStatus_Updated, coll_metadata = []\<rparr>]
     [\<lparr>coll_id = 7, relation_type = CollectionRelationType_Output,
       coll_status = CollectionStatus_Open, coll_metadata = []\<rparr>]
     [] [] = (Inl (IDDSException unsupported), [])
   \<and> check_output_contents (\<lambda>i. [(PyContentStatus ContentStatus_Available, PyInt 5)])
     [(PyStr ''transform_id'', PyInt 1)]
     [\<lparr>coll_id = 5, relation_type = CollectionRelationType_Input,
       coll_status = CollectionStatus_Open, coll_metadata = []\<rparr>,
      \<lparr>coll_id = 6, relation_type = CollectionRelationType_Input,
       coll_status = CollectionStatus_Updated, coll_metadata = []\<rparr>]
     [\<lparr>coll_id = 7, relation_type = CollectionRelationType_Output,
       coll_status = CollectionStatus_Open, coll_metadata = []\<rparr>]
     [] [] = (Inl (IDDSException unsupported), [])
   \<and> process_monitor_transform
     (\<lambda>i. [\<lparr>coll_id = 5, relation_type = CollectionRelationType_Input,
              coll_status = CollectionStatus_Open, coll_metadata = []\<rparr>,
            \<lparr>coll_id = 6, relation_type = CollectionRelationType_Input,
              coll_status = CollectionStatus_Updated, coll_metadata = []\<rparr>,
            \<lparr>coll_id = 7, relation_type = CollectionRelationType_Output,
              coll_status = CollectionStatus_Open, coll_metadata = []\<rparr>])
     (\<lambda>i. [(PyContentStatus ContentStatus_Available, PyInt 5)])
     [(PyStr ''transform_id'', PyInt 1)] []
   = (Inl (IDDSException unsupported), [])
   \<and> process_monitor_transform
     (\<lambda>i. [\<lparr>coll_id = 5, relation_type = CollectionRelationType_Input,
              coll_status = CollectionStatus_Open, coll_metadata = []\<rparr>,
            \<lparr>coll_id = 6, relation_type = CollectionRelationType_Input,
              coll_status = CollectionStatus_Open, coll_metadata = []\<rparr>])
     (\<lambda>i. [(PyContentStatus ContentStatus_Available, PyInt 5)])
     [(PyStr ''transform_id'', PyInt 1)] []
   = (Inr None, [])"
  using more_than_one_collection_monitor_path
    [of "[\<lparr>coll_id = 5, relation_type = CollectionRelationType_Input,
       coll_status = CollectionStatus_Open, coll_metadata = []\<rparr>,
      \<lparr>coll_id = 6, relation_type = CollectionRelationType_Input,
       coll_status = CollectionStatus_Open, coll_metadata = []\<rparr>]"
      "[]" "[]" "[(PyStr ''transform_id'', PyInt 1)]" "[]"
      "\<lambda>i. [(PyContentStatus ContentStatus_Available, PyInt 5)]" "PyInt 1"
      "\<lambda>i. [\<lparr>coll_id = 5, relation_type = CollectionRelationType_Input,
              coll_status = CollectionStatus_Open, coll_metadata = []\<rparr>,
            \<lparr>coll_id = 6, relation_type = CollectionRelationType_Input,
              coll_status = CollectionStatus_Open, coll_metadata = []\<rparr>]"]
    more_than_one_collection_monitor_path
    [of "[\<lparr>coll_id = 5, relation_type = CollectionRelationType_Input,
       coll_status = CollectionStatus_Open, coll_metadata = []\<rparr>,
      \<lparr>coll_id = 6, relation_type = CollectionRelationType_Input,
       coll_status = CollectionStatus_Updated, coll_metadata = []\<rparr>]"
      "[\<lparr>coll_id = 7, relation_type = CollectionRelationType_Output,
       coll_status = CollectionStatus_Open, coll_metadata = []\<rparr>]"
      "[]" "[(PyStr ''transform_id'', PyInt 1)]" "[]"
      "\<lambda>i. [(PyContentStatus ContentStatus_Available, PyInt 5)]" "PyInt 1"
      "\<lambda>i. [\<lparr>coll_id = 5, relation_type = CollectionRelationType_Input,
              coll_status = CollectionStatus_Open, coll_metadata = []\<rparr>,
            \<lparr>coll_id = 6, relation_type = CollectionRelationType_Input,
              coll_status = CollectionStatus_Updated, coll_metadata = []\<rparr>,
            \<lparr>coll_id = 7, relation_type = CollectionRelationType_Output,
              coll_status = CollectionStatus_Open, coll_metadata = []\<rparr>]"]
  by simp

text \<open>
  The claim as stated fails: for a transform with two Input collections, both Open, and
  no Output collection, the monitor path runs neither step and returns None.
\<close>

theorem more_than_one_collection_not_raised_counterexample:
  "process_monitor_transform
     (\<lambda>i. [\<lparr>coll_id = 5, relation_type = CollectionRelationType_Input,
              coll_status = CollectionStatus_Open, coll_metadata = []\<rparr>,
            \<lparr>coll_id = 6, relation_type = CollectionRelationType_Input,
              coll_status = CollectionStatus_Open, coll_metadata = []\<rparr>])
     (\<lambda>i. [])
     [(PyStr ''transform_id'', PyInt 1),
      (PyStr ''status'', PyTransformStatus TransformStatus_Transforming),
      (PyStr ''transform_metadata'', PyDict [])]
     []
   = (Inr None, [])"
  by (simp add: process_monitor_transform_def getitem_def)

end
